theory Spec2Isabelle
  imports Complex_Main
begin

section \<open>Numbers, vectors and strings\<close>

text \<open>
  A Python float is written as the real number it stands for; NaN, infinities and the sign
  of zero are outside the model. In the geometry the arithmetic is that of the reals. In
  the export, whose numbers are rounded to decimal places, the arithmetic is that of the
  IEEE 754 doubles (below). Vectors (numpy arrays of three floats, or lists of three floats)
  are triples.
\<close>

type_synonym vec3 = "real \<times> real \<times> real"

definition vx :: "vec3 \<Rightarrow> real" where "vx v = fst v"
definition vy :: "vec3 \<Rightarrow> real" where "vy v = fst (snd v)"
definition vz :: "vec3 \<Rightarrow> real" where "vz v = snd (snd v)"

text \<open>Decimal rendering of a non-negative integer, as an f-string does for \<open>{i}\<close>.\<close>

definition digit_char :: "nat \<Rightarrow> char" where
  "digit_char d = ''0123456789'' ! d"

fun string_of_nat :: "nat \<Rightarrow> string" where
  "string_of_nat n =
     (if n < 10 then [digit_char n]
      else string_of_nat (n div 10) @ [digit_char (n mod 10)])"

declare string_of_nat.simps [simp del]

text \<open>Rounding to the nearest integer, a tie going to the even neighbour.\<close>

definition round_half_even :: "real \<Rightarrow> int" where
  "round_half_even v =
     (let f = \<lfloor>v\<rfloor>; d = v - of_int f
      in if d < 1 / 2 then f
         else if 1 / 2 < d then f + 1
         else if even f then f else f + 1)"

text \<open>
  IEEE 754 binary64, rounding to nearest, ties to even: \<open>fl x\<close> is the double an operation
  returns whose exact result is \<open>x\<close>. With \<open>2 ^ e \<le> \<bar>x\<bar> < 2 ^ (e + 1)\<close> the doubles around
  \<open>x\<close> are the multiples of \<open>2 ^ (e - 52)\<close>, and those of \<open>2 ^ (- 1074)\<close> below the normal
  range. A result beyond the largest double (overflow) is outside the model.
\<close>

definition pow2 :: "int \<Rightarrow> real" where
  "pow2 e = (if 0 \<le> e then 2 ^ nat e else 1 / 2 ^ nat (- e))"

definition binade :: "real \<Rightarrow> int" where
  "binade x = \<lfloor>log 2 \<bar>x\<bar>\<rfloor>"

definition fl :: "real \<Rightarrow> real" where
  "fl x =
     (if x = 0 then 0
      else (let q = max (binade x) (- 1022) - 52
            in of_int (round_half_even (x / pow2 q)) * pow2 q))"

text \<open>
  Python's \<open>round(v, ndigits)\<close> on a float: the exact value of \<open>v\<close> is rounded to
  \<open>ndigits\<close> decimal places, a tie going to the even last digit, and the decimal number
  found is converted to the nearest double.
\<close>

definition py_round :: "real \<Rightarrow> nat \<Rightarrow> real" where
  "py_round v ndigits = fl (of_int (round_half_even (v * 10 ^ ndigits)) / 10 ^ ndigits)"

section \<open>config.py\<close>

definition RADIUS_MIN :: real where "RADIUS_MIN = 3 / 2"
definition RADIUS_MAX :: real where "RADIUS_MAX = 20"
definition CIRCLE_GROUPING_DISTANCE :: real where "CIRCLE_GROUPING_DISTANCE = 4"
definition MIN_VERTICAL_ALIGNMENT :: real where "MIN_VERTICAL_ALIGNMENT = 15 / 100"
definition MAX_CANDIDATES :: nat where "MAX_CANDIDATES = 800"
definition MIN_SCORE_THRESHOLD :: real where "MIN_SCORE_THRESHOLD = 20"
definition Z_TOLERANCE :: real where "Z_TOLERANCE = 12"
definition ARC_MIN_SPAN_RAD :: real where "ARC_MIN_SPAN_RAD = 1"

section \<open>Data model\<close>

text \<open>
  The dictionaries built by the extractors (candidates) and by \<open>combine_and_group\<close>
  (holes). The \<open>source\<close> strings are the three the extractors write.
\<close>

datatype source_kind = analytic_edge | cylindrical_face | fitted_edge

record candidate =
  source :: source_kind
  center :: vec3
  radius :: real
  axis :: "vec3 option"
  arc_span :: "real option"

record hole =
  hole_id :: int
  hole_center :: vec3
  hole_radius :: real
  num_circles :: nat
  z_depth :: real
  vertical_alignment :: real
  score :: real
  sources :: "source_kind set"

section \<open>processing/export.py\<close>

record point =
  pt_x :: real
  pt_y :: real
  pt_z :: real

record export_record =
  HoleID :: string
  Shape :: int
  ex_group :: int
  ex_radius :: real
  ex_num_circles :: nat
  ex_score :: real
  point1 :: point
  point2 :: point
  point3 :: point
  point4 :: point

datatype document =
  ExportDoc "export_record list"
  | HolesDoc "hole list"
  | MeshDoc "vec3 list" "(nat \<times> nat \<times> nat) list"

text \<open>
  The output directory: the documents written under \<open>WEB_ROOT\<close>, by file name, and the
  file names on which \<open>open\<close> raises (with the message of the exception).
\<close>

record disk =
  contents :: "string \<rightharpoonup> document"
  faults :: "string \<rightharpoonup> string"

definition write_json :: "string \<Rightarrow> document \<Rightarrow> disk \<Rightarrow> string + disk" where
  "write_json filename doc d =
     (case faults d filename of
        Some e \<Rightarrow> Inl e
      | None \<Rightarrow> Inr (d\<lparr>contents := (contents d)(filename \<mapsto> doc)\<rparr>))"

text \<open>The body of the loop of \<open>generate_export_json\<close>: the record of hole \<open>h\<close>, the
  \<open>i\<close>-th selected one. The literal \<open>0.7\<close> is the double \<open>fl (7 / 10)\<close>, and the product,
  the sums and the differences are operations on doubles.\<close>

definition export_entry :: "nat \<Rightarrow> hole \<Rightarrow> export_record" where
  "export_entry i h =
     (let cx = vx (hole_center h); cy = vy (hole_center h); cz = vz (hole_center h);
          r = hole_radius h;
          off = fl (r * fl (7 / 10))
      in \<lparr> HoleID = ''BS-'' @ string_of_nat i,
           Shape = 2,
           ex_group = 0,
           ex_radius = py_round r 4,
           ex_num_circles = num_circles h,
           ex_score = py_round (score h) 2,
           point1 = \<lparr> pt_x = py_round (fl (cx + off)) 2, pt_y = py_round (fl (cy + off)) 2,
                      pt_z = py_round cz 2 \<rparr>,
           point2 = \<lparr> pt_x = py_round (fl (cx - off)) 2, pt_y = py_round (fl (cy + off)) 2,
                      pt_z = py_round cz 2 \<rparr>,
           point3 = \<lparr> pt_x = py_round (fl (cx - off)) 2, pt_y = py_round (fl (cy - off)) 2,
                      pt_z = py_round cz 2 \<rparr>,
           point4 = \<lparr> pt_x = py_round (fl (cx + off)) 2, pt_y = py_round (fl (cy - off)) 2,
                      pt_z = py_round cz 2 \<rparr> \<rparr>)"

text \<open>\<open>enumerate(xs, start=1)\<close>.\<close>

definition enumerate1 :: "'a list \<Rightarrow> (nat \<times> 'a) list" where
  "enumerate1 xs = zip [1 ..< Suc (length xs)] xs"

definition selected_holes :: "hole list \<Rightarrow> int set \<Rightarrow> hole list" where
  "selected_holes holes selected_ids = filter (\<lambda>h. hole_id h \<in> selected_ids) holes"

definition export_data :: "hole list \<Rightarrow> int set \<Rightarrow> export_record list" where
  "export_data holes selected_ids =
     map (\<lambda>(i, h). export_entry i h) (enumerate1 (selected_holes holes selected_ids))"

definition export_filename :: "string \<Rightarrow> string" where
  "export_filename uid = ''holes_export_'' @ uid @ ''.json''"

text \<open>
  \<open>generate_export_json\<close> returns the document and the file name, after writing the
  document; an exception of the write leaves the function (\<open>Inl\<close>).
\<close>

definition generate_export_json ::
  "hole list \<Rightarrow> int set \<Rightarrow> string \<Rightarrow> disk \<Rightarrow> string + ((export_record list \<times> string) \<times> disk)" where
  "generate_export_json holes selected_ids uid d =
     (let data = export_data holes selected_ids;
          filename = export_filename uid
      in case write_json filename (ExportDoc data) d of
           Inl e \<Rightarrow> Inl e
         | Inr d' \<Rightarrow> Inr ((data, filename), d'))"

section \<open>geometry/extraction.py\<close>

subsection \<open>The scorer\<close>

definition calculate_hole_score :: "candidate list \<Rightarrow> candidate \<Rightarrow> real \<Rightarrow> real \<Rightarrow> real" where
  "calculate_hole_score grp representative avg_radius alignment =
     (let ideal = 55 / 10;
          penalty = 3 / 2;
          s1 = 0 + max 0 (25 - \<bar>avg_radius - ideal\<bar> * penalty);
          s2 = (if alignment \<ge> MIN_VERTICAL_ALIGNMENT
                then s1 + (alignment - MIN_VERTICAL_ALIGNMENT) / (1 - MIN_VERTICAL_ALIGNMENT) * 15
                else s1);
          n = length grp;
          s3 = (if n \<ge> 4 then s2 + 40
                else if n = 3 then s2 + 32
                else if n = 2 then s2 + 24
                else s2 + 15);
          srcs = source ` set grp;
          s4 = (if cylindrical_face \<in> srcs then s3 + 15 else s3);
          s5 = (if analytic_edge \<in> srcs then s4 + 10 else s4);
          s6 = (if fitted_edge \<in> srcs then s5 + (if n \<ge> 2 then 5 else 3) else s5)
      in max 0 (min 100 s6))"

subsection \<open>The clustering\<close>

definition in_radius_window :: "candidate \<Rightarrow> bool" where
  "in_radius_window c = (RADIUS_MIN \<le> radius c \<and> radius c \<le> RADIUS_MAX)"

definition features :: "candidate list \<Rightarrow> vec3 list" where
  "features filtered =
     (let z_scale = Z_TOLERANCE / CIRCLE_GROUPING_DISTANCE
      in map (\<lambda>c. (vx (center c), vy (center c), vz (center c) / z_scale)) filtered)"

text \<open>
  Modelled from the spec: the density-based clustering of the library call
  \<open>DBSCAN(eps, min_samples=1).fit(features).labels_\<close>, which is not code of the repository.
  With minimum cluster size 1 every point is a member of some cluster and there is no noise
  label: the clusters are the classes of single linkage at radius \<open>eps\<close> (two points are
  linked when their Euclidean distance is at most \<open>eps\<close>, compared here on the squares).
  Points are visited by index; an unlabelled point opens the next cluster, numbered from 0,
  and its whole class takes that number.
\<close>

definition within_eps :: "real \<Rightarrow> vec3 \<Rightarrow> vec3 \<Rightarrow> bool" where
  "within_eps eps p q = ((vx p - vx q)\<^sup>2 + (vy p - vy q)\<^sup>2 + (vz p - vz q)\<^sup>2 \<le> eps\<^sup>2)"

definition expand :: "real \<Rightarrow> vec3 list \<Rightarrow> nat list \<Rightarrow> nat list" where
  "expand eps pts S =
     filter (\<lambda>j. j \<in> set S \<or> list_ex (\<lambda>i. within_eps eps (pts ! i) (pts ! j)) S) [0 ..< length pts]"

definition cluster_of :: "real \<Rightarrow> vec3 list \<Rightarrow> nat \<Rightarrow> nat list" where
  "cluster_of eps pts i = ((expand eps pts) ^^ (length pts)) [i]"

fun dbscan_scan :: "real \<Rightarrow> vec3 list \<Rightarrow> nat list \<Rightarrow> int list \<Rightarrow> int \<Rightarrow> int list" where
  "dbscan_scan eps pts [] labels k = labels"
| "dbscan_scan eps pts (i # rest) labels k =
     (if labels ! i \<noteq> - 1 then dbscan_scan eps pts rest labels k
      else dbscan_scan eps pts rest
             (map (\<lambda>j. if j \<in> set (cluster_of eps pts i) \<and> labels ! j = - 1 then k else labels ! j)
                  [0 ..< length labels])
             (k + 1))"

definition dbscan_labels :: "real \<Rightarrow> vec3 list \<Rightarrow> int list" where
  "dbscan_labels eps pts = dbscan_scan eps pts [0 ..< length pts] (replicate (length pts) (- 1)) 0"

subsection \<open>One cluster\<close>

text \<open>\<open>np.median\<close> of a non-empty sequence.\<close>

definition median :: "real list \<Rightarrow> real" where
  "median xs =
     (let s = sort xs; n = length s
      in if even n then (s ! (n div 2 - 1) + s ! (n div 2)) / 2 else s ! (n div 2))"

text \<open>\<open>xs.sort(key=..., reverse=True)\<close> on the height of the centre: a stable sort, so
  members of equal height keep their order.\<close>

definition sort_by_z_desc :: "candidate list \<Rightarrow> candidate list" where
  "sort_by_z_desc gs = sort_key (\<lambda>g. - vz (center g)) gs"

definition is_analytic :: "candidate \<Rightarrow> bool" where
  "is_analytic g = (source g \<in> {analytic_edge, cylindrical_face})"

text \<open>
  The representative, and the members in the order the branch leaves them: the second
  branch sorts the list of members in place.
\<close>

definition pick_best :: "candidate list \<Rightarrow> candidate \<times> candidate list" where
  "pick_best grp =
     (let analytic = filter is_analytic grp
      in if analytic \<noteq> [] then (hd (sort_by_z_desc analytic), grp)
         else (let sorted_grp = sort_by_z_desc grp in (hd sorted_grp, sorted_grp)))"

definition weight :: "candidate \<Rightarrow> real" where
  "weight g = (if source g = cylindrical_face then 3 else if source g = analytic_edge then 2 else 1)"

definition axis_or_default :: "candidate \<Rightarrow> vec3" where
  "axis_or_default g = (case axis g of Some a \<Rightarrow> a | None \<Rightarrow> (0, 0, 1))"

text \<open>\<open>np.average(axes, axis=0, weights=weights)\<close>.\<close>

definition weighted_average :: "vec3 list \<Rightarrow> real list \<Rightarrow> vec3" where
  "weighted_average axes ws =
     (let total = sum_list ws
      in (sum_list (map2 (\<lambda>a w. vx a * w) axes ws) / total,
          sum_list (map2 (\<lambda>a w. vy a * w) axes ws) / total,
          sum_list (map2 (\<lambda>a w. vz a * w) axes ws) / total))"

definition norm3 :: "vec3 \<Rightarrow> real" where
  "norm3 v = sqrt ((vx v)\<^sup>2 + (vy v)\<^sup>2 + (vz v)\<^sup>2)"

definition fused_axis :: "candidate list \<Rightarrow> vec3" where
  "fused_axis grp =
     (let avg_axis = weighted_average (map axis_or_default grp) (map weight grp);
          d = norm3 avg_axis + 1 / 10 ^ 10
      in (vx avg_axis / d, vy avg_axis / d, vz avg_axis / d))"

definition list_max :: "real list \<Rightarrow> real" where
  "list_max xs = foldl max (hd xs) (tl xs)"

definition list_min :: "real list \<Rightarrow> real" where
  "list_min xs = foldl min (hd xs) (tl xs)"

text \<open>
  The body of the loop over the clusters for the members \<open>grp0\<close> of one cluster, when
  \<open>k\<close> holes are in the list already: \<open>None\<close> is the \<open>continue\<close> of a cluster that is
  not aligned.
\<close>

definition build_hole :: "nat \<Rightarrow> candidate list \<Rightarrow> hole option" where
  "build_hole k grp0 =
     (let (best, grp) = pick_best grp0;
          centre = (median (map (\<lambda>g. vx (center g)) grp),
                    median (map (\<lambda>g. vy (center g)) grp),
                    median (map (\<lambda>g. vz (center g)) grp));
          avg_radius = median (map radius grp);
          avg_axis = fused_axis grp;
          alignment = \<bar>vz avg_axis\<bar>
      in if alignment < MIN_VERTICAL_ALIGNMENT then None
         else (let z_vals = map (\<lambda>g. vz (center g)) grp
               in Some \<lparr> hole_id = int k + 1,
                         hole_center = centre,
                         hole_radius = avg_radius,
                         num_circles = length grp,
                         z_depth = list_max z_vals - list_min z_vals,
                         vertical_alignment = alignment,
                         score = calculate_hole_score grp best avg_radius alignment,
                         sources = source ` set grp \<rparr>))"

subsection \<open>The aggregate operation\<close>

text \<open>\<open>[filtered[i] for i in np.where(labels == lbl)[0]]\<close>.\<close>

definition cluster_members :: "int list \<Rightarrow> candidate list \<Rightarrow> int \<Rightarrow> candidate list" where
  "cluster_members labels filtered lbl =
     map (\<lambda>i. filtered ! i) (filter (\<lambda>i. labels ! i = lbl) [0 ..< length labels])"

definition unique_labels :: "int list \<Rightarrow> int list" where
  "unique_labels labels = sort (remdups labels)"

definition hole_step :: "int list \<Rightarrow> candidate list \<Rightarrow> hole list \<Rightarrow> int \<Rightarrow> hole list" where
  "hole_step labels filtered holes lbl =
     (case build_hole (length holes) (cluster_members labels filtered lbl) of
        None \<Rightarrow> holes
      | Some h \<Rightarrow> holes @ [h])"

definition detected_holes :: "int list \<Rightarrow> candidate list \<Rightarrow> hole list" where
  "detected_holes labels filtered = foldl (hole_step labels filtered) [] (unique_labels labels)"

text \<open>\<open>holes.sort(key=score, reverse=True)\<close> (stable), the score threshold and the cut.\<close>

definition rank_holes :: "hole list \<Rightarrow> hole list" where
  "rank_holes holes =
     take MAX_CANDIDATES
       (filter (\<lambda>h. score h \<ge> MIN_SCORE_THRESHOLD) (sort_key (\<lambda>h. - score h) holes))"

definition renumber :: "hole list \<Rightarrow> hole list" where
  "renumber holes = map (\<lambda>(i, h). h\<lparr>hole_id := int i\<rparr>) (enumerate1 holes)"

definition cluster_labels :: "candidate list \<Rightarrow> int list" where
  "cluster_labels filtered = dbscan_labels CIRCLE_GROUPING_DISTANCE (features filtered)"

text \<open>The holes in their final order, before the last loop rewrites the ids: the id of
  each is still its rank of discovery.\<close>

definition ranked_holes :: "candidate list \<Rightarrow> hole list" where
  "ranked_holes all_circles =
     (let filtered = filter in_radius_window all_circles
      in rank_holes (detected_holes (cluster_labels filtered) filtered))"

definition combine_and_group :: "candidate list \<Rightarrow> hole list" where
  "combine_and_group all_circles =
     (if length all_circles = 0 then []
      else (let filtered = filter in_radius_window all_circles
            in if length filtered = 0 then []
               else renumber (rank_holes (detected_holes (cluster_labels filtered) filtered))))"

text \<open>The supporting sets: the members of each cluster, in the order of the clusters.\<close>

definition supporting_sets :: "candidate list \<Rightarrow> candidate list list" where
  "supporting_sets all_circles =
     (let filtered = filter in_radius_window all_circles;
          labels = cluster_labels filtered
      in map (cluster_members labels filtered) (unique_labels labels))"

section \<open>geometry/utils.py\<close>

text \<open>
  What the kernel answers for one edge. \<open>curve_domain\<close> is the pair of
  \<open>FirstParameter()\<close> and \<open>LastParameter()\<close>, \<open>None\<close> when building the adaptor or
  asking for them raises. \<open>curve_value t\<close> is the point at parameter \<open>t\<close>, \<open>None\<close>
  when the evaluation raises. \<open>incremental_mesh\<close> is \<open>None\<close> when meshing the edge
  raises. \<open>polygon\<close> is what \<open>BRep_Tool.Polygon3D_s\<close> would answer: \<open>None\<close> when it raises,
  \<open>Some None\<close> when the edge has no polygon, and otherwise the nodes in order, already moved
  by the location of the edge, a node being \<open>None\<close> when reading it raises.
\<close>

record kernel_edge =
  curve_domain :: "(real option \<times> real option) option"
  curve_value :: "real \<Rightarrow> vec3 option"
  incremental_mesh :: "unit option"
  polygon :: "vec3 option list option option"

text \<open>\<open>np.linspace(f, l, n)\<close>; a negative \<open>n\<close> raises.\<close>

definition linspace :: "real \<Rightarrow> real \<Rightarrow> int \<Rightarrow> real list option" where
  "linspace f l n =
     (if n < 0 then None
      else Some (map (\<lambda>i. if n = 1 then f else f + real i * ((l - f) / (of_int n - 1)))
                     [0 ..< nat n]))"

text \<open>The points the first \<open>try\<close> block leaves in \<open>pts\<close>: an evaluation that raises is
  skipped.\<close>

definition parametric_points :: "kernel_edge \<Rightarrow> int \<Rightarrow> vec3 list" where
  "parametric_points e n_samples =
     (case curve_domain e of
        None \<Rightarrow> []
      | Some (None, _) \<Rightarrow> []
      | Some (Some f, None) \<Rightarrow> []
      | Some (Some f, Some l) \<Rightarrow>
          (if \<bar>l - f\<bar> > 1 / 10 ^ 7
           then (case linspace f l n_samples of
                   None \<Rightarrow> []
                 | Some ts \<Rightarrow> List.map_filter (curve_value e) ts)
           else []))"

text \<open>The nodes the loop of the fallback appends before one raises.\<close>

fun polygon_points :: "vec3 option list \<Rightarrow> vec3 list" where
  "polygon_points [] = []"
| "polygon_points (None # rest) = []"
| "polygon_points (Some p # rest) = p # polygon_points rest"

text \<open>
  \<open>BRep_Tool.Location_s(edge)\<close>: the kernel's \<open>BRep_Tool\<close> has no method \<open>Location\<close> (the
  location of an edge is read from the shape, or returned by \<open>Polygon3D\<close>), so the lookup
  raises \<open>AttributeError\<close> for every edge; \<open>None\<close> is that exception.
\<close>

definition BRep_Tool_Location_s :: "kernel_edge \<Rightarrow> unit option" where
  "BRep_Tool_Location_s e = None"

text \<open>
  \<open>pts\<close> is one list for both strategies: the fallback would append to what the first
  strategy left. Every exception of the fallback is swallowed by its bare \<open>except\<close>, and
  the function returns \<open>pts\<close> as it is then.
\<close>

definition sample_edge_points :: "kernel_edge \<Rightarrow> int \<Rightarrow> vec3 list" where
  "sample_edge_points e n_samples =
     (let pts = parametric_points e n_samples
      in if length pts \<ge> 4 then pts
         else (case incremental_mesh e of
                 None \<Rightarrow> pts
               | Some _ \<Rightarrow>
                   (case BRep_Tool_Location_s e of
                      None \<Rightarrow> pts
                    | Some location \<Rightarrow>
                        (case polygon e of
                           None \<Rightarrow> pts
                         | Some None \<Rightarrow> pts
                         | Some (Some nodes) \<Rightarrow>
                             (let pts2 = pts @ polygon_points nodes
                              in if length pts2 \<ge> 4 then pts2 else pts2)))))"

section \<open>geometry/mesh.py\<close>

text \<open>
  The triangulation of one face as the kernel hands it over: the nodes, in the order of
  their indices from 1 and after \<open>p.Transform(trans)\<close>, and the triangles, each the three
  node indices that \<open>t.Get()\<close> returns.
\<close>

type_synonym triangulation = "vec3 list \<times> (int \<times> int \<times> int) list"

text \<open>
  The calls of a job into the CAD kernel and the libraries, each returning its value or the
  message of the exception it raises (\<open>Inl\<close>). \<open>clustering_fault\<close> is the exception, if
  any, that the array and clustering libraries raise inside \<open>combine_and_group\<close>.
  \<open>face_triangulations\<close> is what \<open>BRepMesh_IncrementalMesh(shape, quality)\<close> and the walk of
  the face explorer give: for each face in the order of the explorer its triangulation, or
  \<open>None\<close> for a face without one (\<open>if tri:\<close> fails); it is \<open>Inl\<close> when one of these kernel
  calls raises.
\<close>

record 'shape kernel =
  load_step_shape :: "string \<Rightarrow> string + 'shape"
  extract_analytic_circular_edges :: "'shape \<Rightarrow> string + candidate list"
  extract_cylindrical_faces :: "'shape \<Rightarrow> string + candidate list"
  extract_fitted_circles_from_edges :: "'shape \<Rightarrow> string + candidate list"
  clustering_fault :: "candidate list \<Rightarrow> string option"
  face_triangulations :: "'shape \<Rightarrow> real \<Rightarrow> string + triangulation option list"

text \<open>The \<open>while exp.More()\<close> loop: the nodes of every face are appended to
  \<open>raw_vertices\<close>, and its triangles to \<open>raw_faces\<close>, shifted by the number of vertices
  collected before the face.\<close>

fun collect_raw ::
  "triangulation option list \<Rightarrow> vec3 list \<Rightarrow> (int \<times> int \<times> int) list
   \<Rightarrow> vec3 list \<times> (int \<times> int \<times> int) list" where
  "collect_raw [] raw_vertices raw_faces = (raw_vertices, raw_faces)"
| "collect_raw (None # rest) raw_vertices raw_faces = collect_raw rest raw_vertices raw_faces"
| "collect_raw (Some (nodes, triangles) # rest) raw_vertices raw_faces =
     (let base_idx = int (length raw_vertices)
      in collect_raw rest (raw_vertices @ nodes)
           (raw_faces @ map (\<lambda>(a, b, c). (base_idx + (a - 1), base_idx + (b - 1), base_idx + (c - 1)))
                          triangles))"

text \<open>\<open>xs[i]\<close> on a Python list: a negative index counts from the end, and \<open>None\<close> is
  the \<open>IndexError\<close> of an index out of range.\<close>

definition py_index :: "'a list \<Rightarrow> int \<Rightarrow> 'a option" where
  "py_index xs i =
     (let n = int (length xs)
      in if 0 \<le> i \<and> i < n then Some (xs ! nat i)
         else if - n \<le> i \<and> i < 0 then Some (xs ! nat (n + i))
         else None)"

text \<open>The body of the deduplication loop, on \<open>(vert_map, vertices, new_index)\<close>.\<close>

definition dedup_step ::
  "(vec3 \<rightharpoonup> nat) \<times> vec3 list \<times> nat \<Rightarrow> vec3 \<Rightarrow> (vec3 \<rightharpoonup> nat) \<times> vec3 list \<times> nat" where
  "dedup_step st v =
     (case st of (vert_map, vertices, new_index) \<Rightarrow>
        if vert_map v = None then (vert_map(v \<mapsto> new_index), vertices @ [v], new_index + 1)
        else (vert_map, vertices, new_index))"

text \<open>\<open>vert_map[raw_vertices[i]]\<close>: the new index, or the exception raised.\<close>

datatype lookup = Found nat | KeyError | IndexError

definition lookup_vertex :: "(vec3 \<rightharpoonup> nat) \<Rightarrow> vec3 list \<Rightarrow> int \<Rightarrow> lookup" where
  "lookup_vertex vert_map raw_vertices i =
     (case py_index raw_vertices i of
        None \<Rightarrow> IndexError
      | Some v \<Rightarrow> (case vert_map v of None \<Rightarrow> KeyError | Some k \<Rightarrow> Found k))"

text \<open>The loop over \<open>raw_faces\<close>: a \<open>KeyError\<close> skips the face, and \<open>None\<close> is
  an \<open>IndexError\<close> leaving the loop.\<close>

fun remap_faces ::
  "(vec3 \<rightharpoonup> nat) \<Rightarrow> vec3 list \<Rightarrow> (int \<times> int \<times> int) list \<Rightarrow> (nat \<times> nat \<times> nat) list
   \<Rightarrow> (nat \<times> nat \<times> nat) list option" where
  "remap_faces vert_map raw_vertices [] faces = Some faces"
| "remap_faces vert_map raw_vertices ((a, b, c) # rest) faces =
     (case lookup_vertex vert_map raw_vertices a of
        IndexError \<Rightarrow> None
      | KeyError \<Rightarrow> remap_faces vert_map raw_vertices rest faces
      | Found x \<Rightarrow>
          (case lookup_vertex vert_map raw_vertices b of
             IndexError \<Rightarrow> None
           | KeyError \<Rightarrow> remap_faces vert_map raw_vertices rest faces
           | Found y \<Rightarrow>
               (case lookup_vertex vert_map raw_vertices c of
                  IndexError \<Rightarrow> None
                | KeyError \<Rightarrow> remap_faces vert_map raw_vertices rest faces
                | Found z \<Rightarrow> remap_faces vert_map raw_vertices rest (faces @ [(x, y, z)]))))"

text \<open>
  The whole body is inside \<open>try\<close>, and \<open>except Exception\<close> answers every exception with
  the empty mesh \<open>[], []\<close>: the function returns a pair of lists on every input.
\<close>

definition extract_mesh_from_shape ::
  "'shape kernel \<Rightarrow> 'shape \<Rightarrow> real \<Rightarrow> vec3 list \<times> (nat \<times> nat \<times> nat) list" where
  "extract_mesh_from_shape K shape quality =
     (case face_triangulations K shape quality of
        Inl e \<Rightarrow> ([], [])
      | Inr tris \<Rightarrow>
          (case collect_raw tris [] [] of (raw_vertices, raw_faces) \<Rightarrow>
             if length raw_vertices = 0 \<or> length raw_faces = 0 then ([], [])
             else (case foldl dedup_step (Map.empty, [], 0) raw_vertices of
                     (vert_map, vertices, new_index) \<Rightarrow>
                       (case remap_faces vert_map raw_vertices raw_faces [] of
                          None \<Rightarrow> ([], [])
                        | Some faces \<Rightarrow> (vertices, faces)))))"

section \<open>processing/pipeline.py\<close>

record progress =
  percent :: nat
  status :: string

text \<open>
  The four global stores and the output directory. A key is what \<open>qs.get('uid', [None])[0]\<close>
  gives a handler: a string, or \<open>None\<close>. \<open>MESH_FILES\<close> holds the name of the mesh
  document under \<open>WEB_ROOT\<close>, or \<open>None\<close>.
\<close>

record server_state =
  PROGRESS :: "string option \<rightharpoonup> progress"
  MESH_FILES :: "string option \<rightharpoonup> string option"
  HOLE_DATA :: "string option \<rightharpoonup> hole list"
  SELECTED_HOLES :: "string option \<rightharpoonup> int set"
  DISK :: disk

definition set_progress :: "string \<Rightarrow> nat \<Rightarrow> string \<Rightarrow> server_state \<Rightarrow> server_state" where
  "set_progress uid p st s = s\<lparr>PROGRESS := (PROGRESS s)(Some uid \<mapsto> \<lparr>percent = p, status = st\<rparr>)\<rparr>"

definition finish_job ::
  "string \<Rightarrow> string \<Rightarrow> string option \<Rightarrow> hole list \<Rightarrow> server_state \<Rightarrow> server_state" where
  "finish_job uid st mesh holes s =
     s\<lparr>PROGRESS := (PROGRESS s)(Some uid \<mapsto> \<lparr>percent = 100, status = st\<rparr>),
       MESH_FILES := (MESH_FILES s)(Some uid \<mapsto> mesh),
       HOLE_DATA := (HOLE_DATA s)(Some uid \<mapsto> holes),
       SELECTED_HOLES := (SELECTED_HOLES s)(Some uid \<mapsto> {})\<rparr>"

text \<open>The \<open>try\<close> block: \<open>Inl (e, s)\<close> when an exception with message \<open>e\<close> leaves it
  in state \<open>s\<close>, \<open>Inr s\<close> when it ends or returns in state \<open>s\<close>. The mesh step
  raises nothing: \<open>extract_mesh_from_shape\<close> has caught its exceptions itself.\<close>

definition job_body ::
  "'shape kernel \<Rightarrow> string \<Rightarrow> string \<Rightarrow> real \<Rightarrow> server_state \<Rightarrow> (string \<times> server_state) + server_state" where
  "job_body K uid step_path quality s0 =
     (let s1 = set_progress uid 5 ''Loading STEP file'' s0 in
      case load_step_shape K step_path of Inl e \<Rightarrow> Inl (e, s1) | Inr shape \<Rightarrow>
      let s2 = set_progress uid 15 ''Detecting holes'' s1 in
      case extract_analytic_circular_edges K shape of Inl e \<Rightarrow> Inl (e, s2) | Inr analytic \<Rightarrow>
      case extract_cylindrical_faces K shape of Inl e \<Rightarrow> Inl (e, s2) | Inr cyls \<Rightarrow>
      case extract_fitted_circles_from_edges K shape of Inl e \<Rightarrow> Inl (e, s2) | Inr fitted \<Rightarrow>
      let all_circles = analytic @ cyls @ fitted in
      case clustering_fault K all_circles of Some e \<Rightarrow> Inl (e, s2) | None \<Rightarrow>
      let holes = combine_and_group all_circles;
          s3 = set_progress uid 40
                 (''Found '' @ string_of_nat (length holes) @ '' holes, triangulating mesh'') s2 in
      case extract_mesh_from_shape K shape quality of (vertices, faces) \<Rightarrow>
      if vertices = [] \<or> faces = [] then Inr (finish_job uid ''No mesh produced'' None holes s3)
      else
        let s4 = set_progress uid 75 ''Saving data'' s3;
            mesh_path = ''mesh_'' @ uid @ ''.json'';
            hole_path = ''holes_'' @ uid @ ''.json'' in
        case write_json mesh_path (MeshDoc vertices faces) (DISK s4) of Inl e \<Rightarrow> Inl (e, s4) | Inr d1 \<Rightarrow>
        case write_json hole_path (HolesDoc holes) d1 of Inl e \<Rightarrow> Inl (e, s4\<lparr>DISK := d1\<rparr>) | Inr d2 \<Rightarrow>
        Inr (finish_job uid (''Done - '' @ string_of_nat (length holes) @ '' holes detected'')
               (Some mesh_path) holes (s4\<lparr>DISK := d2\<rparr>)))"

text \<open>The job: the \<open>try\<close> block and its \<open>except Exception\<close> handler.\<close>

definition process_step_file_async ::
  "'shape kernel \<Rightarrow> string \<Rightarrow> string \<Rightarrow> real \<Rightarrow> server_state \<Rightarrow> server_state" where
  "process_step_file_async K uid step_path quality s0 =
     (case job_body K uid step_path quality s0 of
        Inr s \<Rightarrow> s
      | Inl (e, s) \<Rightarrow> finish_job uid (''Error: '' @ e) None [] s)"

section \<open>handlers.py\<close>

text \<open>The JSON bodies of the two endpoints, and a response.\<close>

datatype body =
  SelectedBody "int set"
  | ErrorBody string
  | ExportBody string nat string

record response =
  code :: nat
  content :: body

text \<open>
  The \<open>/api/toggle\<close> branch of \<open>do_GET\<close>. \<open>id_param\<close> is the \<open>id\<close> parameter as
  \<open>int\<close> reads it, \<open>None\<close> when it is absent or \<open>int\<close> raises: both give 0.
\<close>

definition api_toggle :: "string option \<Rightarrow> int option \<Rightarrow> server_state \<Rightarrow> response \<times> server_state" where
  "api_toggle uid id_param s =
     (let hole_id = (case id_param of Some n \<Rightarrow> n | None \<Rightarrow> 0);
          s1 = (if uid \<notin> dom (SELECTED_HOLES s)
                then s\<lparr>SELECTED_HOLES := (SELECTED_HOLES s)(uid \<mapsto> {})\<rparr> else s);
          sel = (case SELECTED_HOLES s1 uid of Some ids \<Rightarrow> ids | None \<Rightarrow> {})
      in if hole_id = 0 then (\<lparr>code = 200, content = SelectedBody sel\<rparr>, s1)
         else (let sel2 = (if hole_id \<in> sel then sel - {hole_id} else insert hole_id sel)
               in (\<lparr>code = 200, content = SelectedBody sel2\<rparr>,
                   s1\<lparr>SELECTED_HOLES := (SELECTED_HOLES s1)(uid \<mapsto> sel2)\<rparr>)))"

text \<open>The \<open>/api/export\<close> branch of \<open>do_GET\<close>; \<open>Inl e\<close> when the exception \<open>e\<close> of the
  write leaves the handler.\<close>

definition api_export :: "string option \<Rightarrow> server_state \<Rightarrow> (string + response) \<times> server_state" where
  "api_export uid s =
     (case uid of
        None \<Rightarrow> (Inr \<lparr>code = 404, content = ErrorBody ''No data for uid''\<rparr>, s)
      | Some u \<Rightarrow>
          (if u = [] then (Inr \<lparr>code = 404, content = ErrorBody ''No data for uid''\<rparr>, s)
           else (case (HOLE_DATA s uid, SELECTED_HOLES s uid) of
                   (Some holes, Some selected_ids) \<Rightarrow>
                     (case generate_export_json holes selected_ids u (DISK s) of
                        Inl e \<Rightarrow> (Inl e, s)
                      | Inr ((data, filename), d) \<Rightarrow>
                          (Inr \<lparr>code = 200, content = ExportBody ''success'' (length data) filename\<rparr>,
                           s\<lparr>DISK := d\<rparr>))
                 | _ \<Rightarrow> (Inr \<lparr>code = 404, content = ErrorBody ''No data for uid''\<rparr>, s))))"

text \<open>
  The export in selection order as the specification words it: one record per selected id,
  in the order \<open>order\<close> in which the ids were added to the selection, labelled from 1.
\<close>

definition export_in_selection_order :: "hole list \<Rightarrow> int list \<Rightarrow> export_record list" where
  "export_in_selection_order holes order =
     map (\<lambda>(i, h). export_entry i h)
       (enumerate1 (concat (map (\<lambda>k. filter (\<lambda>h. hole_id h = k) holes) order)))"

section \<open>Sample data\<close>

definition sample_hole :: "int \<Rightarrow> vec3 \<Rightarrow> real \<Rightarrow> hole" where
  "sample_hole i c r =
     \<lparr> hole_id = i, hole_center = c, hole_radius = r, num_circles = 2, z_depth = 0,
       vertical_alignment = 1, score = 8825 / 100, sources = {analytic_edge, cylindrical_face} \<rparr>"

definition empty_disk :: disk where
  "empty_disk = \<lparr> contents = Map.empty, faults = Map.empty \<rparr>"

definition empty_state :: server_state where
  "empty_state = \<lparr> PROGRESS = Map.empty, MESH_FILES = Map.empty, HOLE_DATA = Map.empty,
                   SELECTED_HOLES = Map.empty, DISK = empty_disk \<rparr>"

definition sample_candidate :: "source_kind \<Rightarrow> vec3 \<Rightarrow> real \<Rightarrow> candidate" where
  "sample_candidate k c r =
     \<lparr> source = k, center = c, radius = r, axis = Some (0, 0, 1), arc_span = None \<rparr>"

definition sample_holes :: "hole list" where
  "sample_holes = [sample_hole 1 (10, 20, 5) 6, sample_hole 2 (50, 0, 5) 6]"

text \<open>A finished job \<open>job\<close> with two holes and nothing selected.\<close>

definition sample_job :: server_state where
  "sample_job =
     empty_state\<lparr> PROGRESS := [Some ''job'' \<mapsto> \<lparr>percent = 100, status = ''Done - 2 holes detected''\<rparr>],
                  MESH_FILES := [Some ''job'' \<mapsto> Some ''mesh_job.json''],
                  HOLE_DATA := [Some ''job'' \<mapsto> sample_holes],
                  SELECTED_HOLES := [Some ''job'' \<mapsto> {}] \<rparr>"

text \<open>
  The document of the export scenario: one hole at (10, 20, 5) of radius 6. A coordinate
  \<open>fl (142 / 10)\<close> is the double nearest to 14.2, which the document shows as \<open>14.2\<close>.
\<close>

definition scenario_export :: "export_record list" where
  "scenario_export =
     [\<lparr> HoleID = ''BS-1'', Shape = 2, ex_group = 0, ex_radius = 6, ex_num_circles = 2,
        ex_score = 8825 / 100,
        point1 = \<lparr> pt_x = fl (142 / 10), pt_y = fl (242 / 10), pt_z = 5 \<rparr>,
        point2 = \<lparr> pt_x = fl (58 / 10), pt_y = fl (242 / 10), pt_z = 5 \<rparr>,
        point3 = \<lparr> pt_x = fl (58 / 10), pt_y = fl (158 / 10), pt_z = 5 \<rparr>,
        point4 = \<lparr> pt_x = fl (142 / 10), pt_y = fl (158 / 10), pt_z = 5 \<rparr> \<rparr>]"



text \<open>
  An edge whose curve has no usable parameter range, meshed with a polygon of five nodes,
  and an edge on the line \<open>(t, 0, 0)\<close> for \<open>t\<close> from 0 to 1, without polygon.
\<close>

definition polygon_only_edge :: kernel_edge where
  "polygon_only_edge =
     \<lparr> curve_domain = None,
       curve_value = (\<lambda>t. None),
       incremental_mesh = Some (),
       polygon = Some (Some [Some (0, 0, 0), Some (1, 0, 0), Some (2, 0, 0),
                             Some (3, 0, 0), Some (4, 0, 0)]) \<rparr>"

definition line_edge :: kernel_edge where
  "line_edge =
     \<lparr> curve_domain = Some (Some 0, Some 1),
       curve_value = (\<lambda>t. Some (t, 0, 0)),
       incremental_mesh = Some (),
       polygon = Some None \<rparr>"

text \<open>
  Two candidates for one hole from the two analytic sources, and a fitted candidate whose
  radius is outside the window.
\<close>

definition two_sources :: "candidate list" where
  "two_sources =
     [sample_candidate analytic_edge (0, 0, 0) 6, sample_candidate cylindrical_face (1, 0, 3) 6]"

text \<open>
  A kernel whose call number \<open>k\<close> raises: 0 is the loader, 1 to 3 are the extractors, 4 is
  the clustering and 5 the mesher. Otherwise the two candidates above are found and one
  face is triangulated. \<open>readonly_state filename\<close> is the empty state with an output
  directory that refuses to open \<open>filename\<close>.
\<close>

definition failing_kernel :: "nat \<Rightarrow> unit kernel" where
  "failing_kernel k =
     \<lparr> load_step_shape = (\<lambda>path. if k = 0 then Inl ''Failed to read STEP file'' else Inr ()),
       extract_analytic_circular_edges =
         (\<lambda>shape. if k = 1 then Inl ''Standard_NullObject''
                   else Inr [sample_candidate analytic_edge (0, 0, 0) 6]),
       extract_cylindrical_faces =
         (\<lambda>shape. if k = 2 then Inl ''Standard_NullObject''
                   else Inr [sample_candidate cylindrical_face (1, 0, 3) 6]),
       extract_fitted_circles_from_edges =
         (\<lambda>shape. if k = 3 then Inl ''Standard_NullObject'' else Inr []),
       clustering_fault = (\<lambda>cs. if k = 4 then Some ''MemoryError'' else None),
       face_triangulations =
         (\<lambda>shape quality. if k = 5 then Inl ''Standard_Failure''
                           else Inr [Some ([(0, 0, 0), (1, 0, 0), (0, 1, 0)], [(1, 2, 3)])]) \<rparr>"

definition readonly_state :: "string \<Rightarrow> server_state" where
  "readonly_state filename =
     empty_state\<lparr>DISK := \<lparr>contents = Map.empty, faults = [filename \<mapsto> ''Permission denied'']\<rparr>\<rparr>"

definition oversized :: candidate where
  "oversized = sample_candidate fitted_edge (0, 0, 0) 50"

section \<open>Notions used in the statements\<close>

text \<open>The terminal error state of job \<open>uid\<close> for the exception message \<open>e\<close>.\<close>

definition error_outcome :: "string \<Rightarrow> string \<Rightarrow> server_state \<Rightarrow> bool" where
  "error_outcome uid e s =
     (PROGRESS s (Some uid) = Some \<lparr>percent = 100, status = ''Error: '' @ e\<rparr>
      \<and> HOLE_DATA s (Some uid) = Some []
      \<and> MESH_FILES s (Some uid) = Some None
      \<and> SELECTED_HOLES s (Some uid) = Some {})"

text \<open>
  The selection of \<open>uid\<close> as a toggle request finds it, a missing entry counting as
  empty, and the selection after toggling the requested id in it: the id 0 and an
  unreadable id change nothing.
\<close>

definition selection_of :: "server_state \<Rightarrow> string option \<Rightarrow> int set" where
  "selection_of s uid = (case SELECTED_HOLES s uid of None \<Rightarrow> {} | Some sel \<Rightarrow> sel)"

definition toggled :: "int option \<Rightarrow> int set \<Rightarrow> int set" where
  "toggled id_param sel =
     (case id_param of
        None \<Rightarrow> sel
      | Some k \<Rightarrow> if k = 0 then sel else if k \<in> sel then sel - {k} else insert k sel)"

text \<open>The terminal state of job \<open>uid\<close> when no mesh was produced for the \<open>holes\<close>.\<close>

definition no_mesh_outcome :: "string \<Rightarrow> hole list \<Rightarrow> server_state \<Rightarrow> bool" where
  "no_mesh_outcome uid holes s =
     (PROGRESS s (Some uid) = Some \<lparr>percent = 100, status = ''No mesh produced''\<rparr>
      \<and> HOLE_DATA s (Some uid) = Some holes
      \<and> MESH_FILES s (Some uid) = Some None
      \<and> SELECTED_HOLES s (Some uid) = Some {})"



text \<open>The holes in the order of their discovery, before ranking.\<close>

definition discovered_holes :: "candidate list \<Rightarrow> hole list" where
  "discovered_holes all_circles =
     (let filtered = filter in_radius_window all_circles
      in detected_holes (cluster_labels filtered) filtered)"

text \<open>The order of the ranked list: the greater score first and, among equal scores, the
  hole discovered first.\<close>

definition ranks_before :: "hole \<Rightarrow> hole \<Rightarrow> bool" where
  "ranks_before a b = (score b < score a \<or> (score a = score b \<and> hole_id a < hole_id b))"

text \<open>An axis within one tenth of \<open>(0, 0, 1)\<close> in every component; a candidate without
  axis counts with the default axis \<open>(0, 0, 1)\<close>.\<close>

definition near_vertical :: "candidate \<Rightarrow> bool" where
  "near_vertical g =
     (\<bar>vx (axis_or_default g)\<bar> \<le> 1 / 10 \<and> \<bar>vy (axis_or_default g)\<bar> \<le> 1 / 10
      \<and> \<bar>vz (axis_or_default g) - 1\<bar> \<le> 1 / 10)"

text \<open>The Euclidean distance of the centres of two candidates.\<close>

definition center_distance :: "candidate \<Rightarrow> candidate \<Rightarrow> real" where
  "center_distance a c =
     sqrt ((vx (center a) - vx (center c))\<^sup>2 + (vy (center a) - vy (center c))\<^sup>2
           + (vz (center a) - vz (center c))\<^sup>2)"

section \<open>Arithmetic of the doubles\<close>

lemma pow2_powr: "pow2 e = 2 powr (of_int e)"
proof (cases "0 \<le> e")
  case True
  then have "(2::real) powr (of_int e) = 2 powr (real (nat e))" by simp
  also have "\<dots> = 2 ^ nat e" by (rule powr_realpow) simp
  finally show ?thesis using True by (simp add: pow2_def)
next
  case False
  then have "(2::real) powr (of_int e) = 2 powr (- real (nat (- e)))" by simp
  also have "\<dots> = 1 / 2 powr (real (nat (- e)))" by (rule powr_minus_divide)
  also have "\<dots> = 1 / 2 ^ nat (- e)" by (simp add: powr_realpow)
  finally show ?thesis using False by (simp add: pow2_def)
qed

lemma binade_eqI:
  assumes "pow2 e \<le> \<bar>x\<bar>" and "\<bar>x\<bar> < pow2 (e + 1)"
  shows "binade x = e"
proof -
  have pos: "0 < \<bar>x\<bar>"
    using assms(1) by (smt (verit) pow2_powr powr_gt_zero)
  have "of_int e \<le> log 2 \<bar>x\<bar>"
    using assms(1) pos by (simp add: le_log_iff pow2_powr)
  moreover have "log 2 \<bar>x\<bar> < of_int e + 1"
    using assms(2) pos by (simp add: log_less_iff pow2_powr)
  ultimately show ?thesis
    unfolding binade_def by (simp add: floor_eq_iff)
qed

lemma fl_eval:
  assumes "pow2 e \<le> \<bar>x\<bar>" and "\<bar>x\<bar> < pow2 (e + 1)" and "- 1022 \<le> e"
  shows "fl x = of_int (round_half_even (x / pow2 (e - 52))) * pow2 (e - 52)"
proof -
  have "x \<noteq> 0"
    using assms(1) by (smt (verit) pow2_powr powr_gt_zero)
  moreover have "binade x = e"
    using assms(1,2) by (rule binade_eqI)
  ultimately show ?thesis
    using assms(3) by (simp add: fl_def Let_def max_def)
qed

lemma fl_7_10: "fl (7 / 10) = 3152519739159347 / 2 ^ 52"
  by (subst fl_eval [where e = "- 1"]) (simp_all add: pow2_def round_half_even_def Let_def)

lemma off_6: "fl (6 * fl (7 / 10)) = 1182194902184755 / 2 ^ 48"
  unfolding fl_7_10
  by (subst fl_eval [where e = 2]) (simp_all add: pow2_def round_half_even_def Let_def)


lemma scenario_x_plus: "py_round (fl (10 + fl (6 * fl (7 / 10)))) 2 = fl (142 / 10)"
proof -
  have s: "fl (10 + 1182194902184755 / 2 ^ 48) = 3996944669291315 / 2 ^ 48"
    by (subst fl_eval [where e = 3]) (simp_all add: pow2_def round_half_even_def Let_def)
  show ?thesis
    unfolding off_6 s py_round_def by (simp add: round_half_even_def Let_def)
qed

lemma scenario_x_minus: "py_round (fl (10 - fl (6 * fl (7 / 10)))) 2 = fl (58 / 10)"
proof -
  have s: "fl (10 - 1182194902184755 / 2 ^ 48) = 1632554864921805 / 2 ^ 48"
    by (subst fl_eval [where e = 2]) (simp_all add: pow2_def round_half_even_def Let_def)
  show ?thesis
    unfolding off_6 s py_round_def by (simp add: round_half_even_def Let_def)
qed

lemma scenario_y_plus: "py_round (fl (20 + fl (6 * fl (7 / 10)))) 2 = fl (242 / 10)"
proof -
  have s: "fl (20 + 1182194902184755 / 2 ^ 48) = 6811694436397875 / 2 ^ 48"
    by (subst fl_eval [where e = 4]) (simp_all add: pow2_def round_half_even_def Let_def)
  show ?thesis
    unfolding off_6 s py_round_def by (simp add: round_half_even_def Let_def)
qed

lemma scenario_y_minus: "py_round (fl (20 - fl (6 * fl (7 / 10)))) 2 = fl (158 / 10)"
proof -
  have s: "fl (20 - 1182194902184755 / 2 ^ 48) = 4447304632028365 / 2 ^ 48"
    by (subst fl_eval [where e = 3]) (simp_all add: pow2_def round_half_even_def Let_def)
  show ?thesis
    unfolding off_6 s py_round_def by (simp add: round_half_even_def Let_def)
qed

lemma second_x_plus: "py_round (fl (50 + fl (6 * fl (7 / 10)))) 2 = fl (542 / 10)"
proof -
  have s: "fl (50 + 1182194902184755 / 2 ^ 48) = 3813985934429389 / 2 ^ 46"
    by (subst fl_eval [where e = 5]) (simp_all add: pow2_def round_half_even_def Let_def)
  show ?thesis
    unfolding off_6 s py_round_def by (simp add: round_half_even_def Let_def)
qed





lemma fl_5: "fl 5 = 5"
  by (subst fl_eval [where e = 2]) (simp_all add: pow2_def round_half_even_def Let_def)

lemma fl_6: "fl 6 = 6"
  by (subst fl_eval [where e = 2]) (simp_all add: pow2_def round_half_even_def Let_def)


lemma fl_353_4: "fl (353 / 4) = 353 / 4"
  by (subst fl_eval [where e = 6]) (simp_all add: pow2_def round_half_even_def Let_def)







lemma scenario_z: "py_round 5 2 = 5"
  by (simp add: py_round_def round_half_even_def Let_def fl_5)

lemma scenario_radius: "py_round 6 4 = 6"
  by (simp add: py_round_def round_half_even_def Let_def fl_6)

lemma sample_score: "py_round (8825 / 100) 2 = 8825 / 100"
  by (simp add: py_round_def round_half_even_def Let_def fl_353_4)



lemma round_half_even_nearest:
  "\<bar>v - of_int (round_half_even v)\<bar> \<le> 1 / 2
   \<and> (\<bar>v - of_int (round_half_even v)\<bar> = 1 / 2 \<longrightarrow> even (round_half_even v))"
proof -
  have "of_int \<lfloor>v\<rfloor> \<le> v" "v < of_int \<lfloor>v\<rfloor> + 1"
    by linarith+
  then show ?thesis
    by (auto simp: round_half_even_def Let_def)
qed


lemma fl_nearest:
  assumes "pow2 e \<le> \<bar>x\<bar>" and "\<bar>x\<bar> < pow2 (e + 1)" and "- 1022 \<le> e"
  shows "\<exists>m::int. fl x = of_int m * pow2 (e - 52)
     \<and> \<bar>x / pow2 (e - 52) - of_int m\<bar> \<le> 1 / 2
     \<and> (\<bar>x / pow2 (e - 52) - of_int m\<bar> = 1 / 2 \<longrightarrow> even m)"
  using round_half_even_nearest [of "x / pow2 (e - 52)"]
  by (intro exI [of _ "round_half_even (x / pow2 (e - 52))"]) (simp add: fl_eval [OF assms])

lemma fl_142_542: "fl (142 / 10) \<noteq> fl (542 / 10)"
proof -
  have a: "fl (142 / 10) = 3996944669291315 / 2 ^ 48"
    by (subst fl_eval [where e = 3]) (simp_all add: pow2_def round_half_even_def Let_def)
  have b: "fl (542 / 10) = 3813985934429389 / 2 ^ 46"
    by (subst fl_eval [where e = 5]) (simp_all add: pow2_def round_half_even_def Let_def)
  show ?thesis unfolding a b by simp
qed

section \<open>The export document\<close>

lemma length_enumerate1: "length (enumerate1 xs) = length xs"
  by (simp add: enumerate1_def del: upt_Suc)

lemma nth_enumerate1: "i < length xs \<Longrightarrow> enumerate1 xs ! i = (Suc i, xs ! i)"
  by (simp add: enumerate1_def del: upt_Suc)

lemma length_export_data: "length (export_data holes sel) = length (selected_holes holes sel)"
  by (simp add: export_data_def length_enumerate1)

lemma nth_export_data:
  "i < length (selected_holes holes sel) \<Longrightarrow>
   export_data holes sel ! i = export_entry (Suc i) (selected_holes holes sel ! i)"
  by (simp add: export_data_def length_enumerate1 nth_enumerate1)

lemma generate_export_json_data:
  "generate_export_json holes sel uid d = Inr ((data, fname), d') \<Longrightarrow>
   data = export_data holes sel \<and> fname = export_filename uid
   \<and> d' = d\<lparr>contents := (contents d)(fname \<mapsto> ExportDoc data)\<rparr>"
  by (auto simp: generate_export_json_def write_json_def Let_def split: option.splits)

lemma export_data_single:
  "hole_id h = k \<Longrightarrow> export_data [h] {k} = [export_entry 1 h]"
  by (simp add: export_data_def selected_holes_def enumerate1_def)

lemma label_1: "''BS-'' @ string_of_nat 1 = ''BS-1''"
  by (simp add: string_of_nat.simps digit_char_def)

lemma export_entry_scenario:
  "[export_entry 1 (sample_hole 1 (10, 20, 5) 6)] = scenario_export"
  unfolding export_entry_def sample_hole_def Let_def vx_def vy_def vz_def
    hole.select_convs fst_conv snd_conv
    scenario_x_plus scenario_x_minus scenario_y_plus scenario_y_minus scenario_z
    scenario_radius sample_score label_1 scenario_export_def
  by (rule refl)


lemma export_data_scenario:
  "export_data [sample_hole 1 (10, 20, 5) 6] {1} = scenario_export"
  unfolding export_entry_scenario [symmetric]
  by (rule export_data_single) (simp add: sample_hole_def)


lemma export_scenario_json:
  "generate_export_json [sample_hole 1 (10, 20, 5) 6] {1} uid empty_disk =
     Inr ((scenario_export, export_filename uid),
          empty_disk\<lparr>contents := [export_filename uid \<mapsto> ExportDoc scenario_export]\<rparr>)"
  by (simp add: generate_export_json_def write_json_def empty_disk_def Let_def export_data_scenario)






section \<open>The scorer\<close>

lemma clamp_bounds: "0 \<le> max 0 (min 100 x) \<and> max 0 (min 100 x) \<le> (100::real)"
  by simp

text \<open>
  C6. For every group, representative, average radius and alignment, the score is between
  0 and 100 inclusive.
\<close>

theorem calculate_hole_score_bounds:
  "0 \<le> calculate_hole_score grp representative avg_radius alignment
   \<and> calculate_hole_score grp representative avg_radius alignment \<le> 100"
  unfolding calculate_hole_score_def Let_def by (rule clamp_bounds)

section \<open>Selection and export\<close>

lemma selected_holes_cong:
  "sel1 \<inter> hole_id ` set holes = sel2 \<inter> hole_id ` set holes \<Longrightarrow>
   selected_holes holes sel1 = selected_holes holes sel2"
  unfolding selected_holes_def by (rule filter_cong) auto

lemma export_data_cong:
  "sel1 \<inter> hole_id ` set holes = sel2 \<inter> hole_id ` set holes \<Longrightarrow>
   export_data holes sel1 = export_data holes sel2"
  using selected_holes_cong [of sel1 holes sel2] by (simp add: export_data_def)

lemma generate_export_json_cong:
  "sel1 \<inter> hole_id ` set holes = sel2 \<inter> hole_id ` set holes \<Longrightarrow>
   generate_export_json holes sel1 u d = generate_export_json holes sel2 u d"
  using export_data_cong [of sel1 holes sel2] by (simp add: generate_export_json_def)

lemma api_export_selection_cong:
  assumes "HOLE_DATA s uid = Some holes" "HOLE_DATA s' = HOLE_DATA s" "DISK s' = DISK s"
    and "SELECTED_HOLES s uid = Some sel" "SELECTED_HOLES s' uid = Some sel'"
    and "sel' \<inter> hole_id ` set holes = sel \<inter> hole_id ` set holes"
  shows "fst (api_export uid s') = fst (api_export uid s)
       \<and> DISK (snd (api_export uid s')) = DISK (snd (api_export uid s))"
  using assms generate_export_json_cong [OF assms(6), of "the uid" "DISK s"]
  by (auto simp: api_export_def split: option.splits sum.splits prod.splits)

lemma toggle_outside:
  "k \<notin> A \<Longrightarrow> (if k \<in> sel then sel - {k} else insert k sel) \<inter> A = sel \<inter> A"
  by auto

lemma api_toggle_known:
  assumes "SELECTED_HOLES s uid = Some sel" "k \<noteq> 0"
  shows "api_toggle uid (Some k) s =
           (\<lparr>code = 200, content = SelectedBody (if k \<in> sel then sel - {k} else insert k sel)\<rparr>,
            s\<lparr>SELECTED_HOLES := (SELECTED_HOLES s)(uid \<mapsto> (if k \<in> sel then sel - {k} else insert k sel))\<rparr>)"
  using assms by (auto simp: api_toggle_def Let_def dom_def)

text \<open>
  C10. For a job with hole list \<open>holes\<close> and selection \<open>sel\<close>: two selections that agree
  on the ids present in the hole list give the same result of the export, document, file
  name and written file alike; and toggling an id \<open>k\<close> that is not 0 and is the id of no
  stored hole answers 200, changes the selection set, and leaves the export as it was: the
  same document, the same response and the same output directory.
\<close>

theorem export_ignores_unknown_ids:
  assumes "HOLE_DATA s uid = Some holes" and "SELECTED_HOLES s uid = Some sel"
    and "k \<noteq> 0" and "k \<notin> hole_id ` set holes"
  shows "(\<forall>sel1 sel2 u d. sel1 \<inter> hole_id ` set holes = sel2 \<inter> hole_id ` set holes \<longrightarrow>
            generate_export_json holes sel1 u d = generate_export_json holes sel2 u d)
    \<and> code (fst (api_toggle uid (Some k) s)) = 200
    \<and> SELECTED_HOLES (snd (api_toggle uid (Some k) s)) uid
         = Some (if k \<in> sel then sel - {k} else insert k sel)
    \<and> SELECTED_HOLES (snd (api_toggle uid (Some k) s)) uid \<noteq> Some sel
    \<and> HOLE_DATA (snd (api_toggle uid (Some k) s)) = HOLE_DATA s
    \<and> export_data holes (if k \<in> sel then sel - {k} else insert k sel) = export_data holes sel
    \<and> fst (api_export uid (snd (api_toggle uid (Some k) s))) = fst (api_export uid s)
    \<and> DISK (snd (api_export uid (snd (api_toggle uid (Some k) s)))) = DISK (snd (api_export uid s))"
proof -
  let ?sel' = "if k \<in> sel then sel - {k} else insert k sel"
  let ?s' = "snd (api_toggle uid (Some k) s)"
  note toggle = api_toggle_known [OF assms(2,3)]
  have agree: "?sel' \<inter> hole_id ` set holes = sel \<inter> hole_id ` set holes"
    by (rule toggle_outside [OF assms(4)])
  have hyper: "\<forall>sel1 sel2 u d. sel1 \<inter> hole_id ` set holes = sel2 \<inter> hole_id ` set holes \<longrightarrow>
            generate_export_json holes sel1 u d = generate_export_json holes sel2 u d"
    by (intro allI impI) (rule generate_export_json_cong)
  have c: "code (fst (api_toggle uid (Some k) s)) = 200"
    by (simp add: toggle)
  have sel': "SELECTED_HOLES ?s' uid = Some ?sel'"
    by (simp add: toggle)
  have changed: "SELECTED_HOLES ?s' uid \<noteq> Some sel"
    unfolding sel' by auto
  have hd: "HOLE_DATA ?s' = HOLE_DATA s"
    by (simp add: toggle)
  have dk: "DISK ?s' = DISK s"
    by (simp add: toggle)
  have ed: "export_data holes ?sel' = export_data holes sel"
    by (rule export_data_cong [OF agree])
  note ex = api_export_selection_cong [OF assms(1) hd dk assms(2) sel' agree]
  show ?thesis
    using hyper c sel' changed hd ed ex by (intro conjI) (erule conjunct1 conjunct2 | assumption)+
qed

theorem export_ignores_unknown_ids_witness:
  "HOLE_DATA sample_job (Some ''job'') = Some sample_holes
   \<and> SELECTED_HOLES sample_job (Some ''job'') = Some {}
   \<and> (7::int) \<noteq> 0 \<and> 7 \<notin> hole_id ` set sample_holes
   \<and> SELECTED_HOLES (snd (api_toggle (Some ''job'') (Some 7) sample_job)) (Some ''job'') \<noteq> Some {}
   \<and> fst (api_export (Some ''job'') (snd (api_toggle (Some ''job'') (Some 7) sample_job)))
       = fst (api_export (Some ''job'') sample_job)"
proof -
  have h1: "HOLE_DATA sample_job (Some ''job'') = Some sample_holes"
    by (simp add: sample_job_def empty_state_def)
  have h2: "SELECTED_HOLES sample_job (Some ''job'') = Some {}"
    by (simp add: sample_job_def empty_state_def)
  have h3: "(7::int) \<noteq> 0" by simp
  have h4: "7 \<notin> hole_id ` set sample_holes"
    by (simp add: sample_holes_def sample_hole_def)
  note facts = export_ignores_unknown_ids [OF h1 h2 h3 h4]
  have c1: "SELECTED_HOLES (snd (api_toggle (Some ''job'') (Some 7) sample_job)) (Some ''job'') \<noteq> Some {}"
    by (rule facts [THEN conjunct2, THEN conjunct2, THEN conjunct2, THEN conjunct1])
  have c2: "fst (api_export (Some ''job'') (snd (api_toggle (Some ''job'') (Some 7) sample_job)))
       = fst (api_export (Some ''job'') sample_job)"
    by (rule facts [THEN conjunct2, THEN conjunct2, THEN conjunct2, THEN conjunct2, THEN conjunct2,
          THEN conjunct2, THEN conjunct1])
  show ?thesis
    by (rule conjI [OF h1 conjI [OF h2 conjI [OF h3 conjI [OF h4 conjI [OF c1 c2]]]]])
qed

section \<open>The order of the export\<close>

lemma export_data_labels:
  "map HoleID (export_data holes sel) =
     map (\<lambda>i. ''BS-'' @ string_of_nat i) [1 ..< Suc (length (export_data holes sel))]"
proof (rule nth_equalityI)
  show "length (map HoleID (export_data holes sel)) =
        length (map (\<lambda>i. ''BS-'' @ string_of_nat i) [1 ..< Suc (length (export_data holes sel))])"
    by (simp del: upt_Suc)
next
  fix i assume "i < length (map HoleID (export_data holes sel))"
  then have i: "i < length (selected_holes holes sel)"
    by (simp add: length_export_data)
  then have "map HoleID (export_data holes sel) ! i = ''BS-'' @ string_of_nat (Suc i)"
    by (simp add: length_export_data nth_export_data export_entry_def Let_def)
  moreover have "map (\<lambda>i. ''BS-'' @ string_of_nat i) [1 ..< Suc (length (export_data holes sel))] ! i
      = ''BS-'' @ string_of_nat (Suc i)"
    using i by (simp add: length_export_data nth_upt del: upt_Suc)
  ultimately show "map HoleID (export_data holes sel) ! i =
      map (\<lambda>i. ''BS-'' @ string_of_nat i) [1 ..< Suc (length (export_data holes sel))] ! i"
    by simp
qed

lemma export_data_nth_filter:
  "\<forall>i < length (export_data holes sel).
     export_data holes sel ! i = export_entry (Suc i) (filter (\<lambda>h. hole_id h \<in> sel) holes ! i)"
  using nth_export_data [of _ holes sel]
  by (simp add: length_export_data) (simp add: selected_holes_def)

text \<open>
  C4 (as amended). When the export succeeds, its document has one record per hole of the
  stored list whose id is in the selection set, in the order of the stored hole list, and
  the records are labelled \<open>BS-1\<close>, \<open>BS-2\<close>, ... in that order. The selection is a set: the
  order in which ids were added to it is not kept.
\<close>

theorem export_follows_hole_list_order:
  assumes "generate_export_json holes selected_ids uid d = Inr ((data, fname), d')"
  shows "length data = length (filter (\<lambda>h. hole_id h \<in> selected_ids) holes)
    \<and> (\<forall>i < length data.
          data ! i = export_entry (Suc i) (filter (\<lambda>h. hole_id h \<in> selected_ids) holes ! i))
    \<and> map HoleID data = map (\<lambda>i. ''BS-'' @ string_of_nat i) [1 ..< Suc (length data)]"
proof -
  have data: "data = export_data holes selected_ids"
    using generate_export_json_data [OF assms] by simp
  have len: "length data = length (filter (\<lambda>h. hole_id h \<in> selected_ids) holes)"
    unfolding data length_export_data selected_holes_def by (rule refl)
  note entries = export_data_nth_filter [of holes selected_ids, folded data]
  note labels = export_data_labels [of holes selected_ids, folded data]
  show ?thesis
    by (rule conjI [OF len conjI [OF entries labels]])
qed

theorem export_follows_hole_list_order_witness:
  "generate_export_json [sample_hole 1 (10, 20, 5) 6] {1} ''job'' empty_disk =
     Inr ((scenario_export, ''holes_export_job.json''),
          empty_disk\<lparr>contents := [''holes_export_job.json'' \<mapsto> ExportDoc scenario_export]\<rparr>)
   \<and> map HoleID scenario_export
       = map (\<lambda>i. ''BS-'' @ string_of_nat i) [1 ..< Suc (length scenario_export)]"
proof -
  have run: "generate_export_json [sample_hole 1 (10, 20, 5) 6] {1} ''job'' empty_disk =
     Inr ((scenario_export, ''holes_export_job.json''),
          empty_disk\<lparr>contents := [''holes_export_job.json'' \<mapsto> ExportDoc scenario_export]\<rparr>)"
    using export_scenario_json [of "''job''"] by (simp add: export_filename_def)
  note facts = export_follows_hole_list_order [OF run]
  show ?thesis
    by (rule conjI [OF run facts [THEN conjunct2, THEN conjunct2]])
qed

lemma sample_job_toggled:
  "snd (api_toggle (Some ''job'') (Some 1) (snd (api_toggle (Some ''job'') (Some 2) sample_job)))
     = sample_job\<lparr>SELECTED_HOLES := [Some ''job'' \<mapsto> {1, 2}]\<rparr>"
  by (simp add: api_toggle_def sample_job_def empty_state_def Let_def insert_commute)

lemma sample_export_first:
  "pt_x (point1 (export_data sample_holes {1, 2} ! 0)) = fl (142 / 10)"
  "pt_x (point1 (export_in_selection_order sample_holes [2, 1] ! 0)) = fl (542 / 10)"
proof -
  have a: "export_data sample_holes {1, 2} ! 0 = export_entry 1 (sample_hole 1 (10, 20, 5) 6)"
    by (simp add: export_data_def selected_holes_def sample_holes_def sample_hole_def enumerate1_def)
  have b: "export_in_selection_order sample_holes [2, 1] ! 0 = export_entry 1 (sample_hole 2 (50, 0, 5) 6)"
    by (simp add: export_in_selection_order_def sample_holes_def sample_hole_def enumerate1_def)
  show "pt_x (point1 (export_data sample_holes {1, 2} ! 0)) = fl (142 / 10)"
    unfolding a export_entry_def sample_hole_def Let_def vx_def vy_def vz_def
      hole.select_convs fst_conv snd_conv export_record.select_convs point.select_convs
      scenario_x_plus
    by (rule refl)
  show "pt_x (point1 (export_in_selection_order sample_holes [2, 1] ! 0)) = fl (542 / 10)"
    unfolding b export_entry_def sample_hole_def Let_def vx_def vy_def vz_def
      hole.select_convs fst_conv snd_conv export_record.select_convs point.select_convs
      second_x_plus
    by (rule refl)
qed

theorem export_selection_order_counterexample:
  "SELECTED_HOLES
     (snd (api_toggle (Some ''job'') (Some 1) (snd (api_toggle (Some ''job'') (Some 2) sample_job))))
     (Some ''job'') = Some {1, 2}
   \<and> contents (DISK (snd (api_export (Some ''job'')
        (snd (api_toggle (Some ''job'') (Some 1) (snd (api_toggle (Some ''job'') (Some 2) sample_job)))))))
        ''holes_export_job.json''
       = Some (ExportDoc (export_data sample_holes {1, 2}))
   \<and> export_data sample_holes {1, 2} \<noteq> export_in_selection_order sample_holes [2, 1]"
proof -
  have sel: "SELECTED_HOLES
     (snd (api_toggle (Some ''job'') (Some 1) (snd (api_toggle (Some ''job'') (Some 2) sample_job))))
     (Some ''job'') = Some {1, 2}"
    unfolding sample_job_toggled by simp
  have doc: "contents (DISK (snd (api_export (Some ''job'')
        (snd (api_toggle (Some ''job'') (Some 1) (snd (api_toggle (Some ''job'') (Some 2) sample_job)))))))
        ''holes_export_job.json''
       = Some (ExportDoc (export_data sample_holes {1, 2}))"
    unfolding sample_job_toggled
    by (simp add: api_export_def sample_job_def empty_state_def empty_disk_def
        generate_export_json_def write_json_def export_filename_def Let_def)
  have diff: "export_data sample_holes {1, 2} \<noteq> export_in_selection_order sample_holes [2, 1]"
  proof
    assume "export_data sample_holes {1, 2} = export_in_selection_order sample_holes [2, 1]"
    then have "pt_x (point1 (export_data sample_holes {1, 2} ! 0))
        = pt_x (point1 (export_in_selection_order sample_holes [2, 1] ! 0))"
      by (rule arg_cong)
    then show False
      unfolding sample_export_first using fl_142_542 by simp
  qed
  show ?thesis by (rule conjI [OF sel conjI [OF doc diff]])
qed

section \<open>Toggling on an unknown uid\<close>

lemma api_toggle_result:
  "api_toggle uid id_param s =
     (\<lparr>code = 200, content = SelectedBody (toggled id_param (selection_of s uid))\<rparr>,
      s\<lparr>SELECTED_HOLES := (SELECTED_HOLES s)(uid \<mapsto> toggled id_param (selection_of s uid))\<rparr>)"
proof (cases "SELECTED_HOLES s uid")
  case None
  then have "uid \<notin> dom (SELECTED_HOLES s)"
    by (simp add: domIff)
  then show ?thesis
    using None by (cases id_param) (simp_all add: api_toggle_def Let_def toggled_def selection_of_def)
next
  case (Some sel)
  then have "\<not> uid \<notin> dom (SELECTED_HOLES s)"
    by (simp add: domIff)
  moreover have "s\<lparr>SELECTED_HOLES := (SELECTED_HOLES s)(uid \<mapsto> sel)\<rparr> = s"
    using Some by (simp add: fun_upd_idem)
  ultimately show ?thesis
    using Some by (cases id_param) (simp_all add: api_toggle_def Let_def toggled_def selection_of_def)
qed

text \<open>
  C9 (as amended). A toggle request is never answered "not found" and does not fail,
  whether or not the uid has a job or a selection entry: the handler answers 200 with the
  resulting selection. A missing selection entry counts as empty; a non-zero id is toggled
  in the selection, and the id 0 or an unreadable id leaves it as it is. Afterwards the uid
  has a selection entry holding the answered selection, the selections of the other uids,
  the progress, hole and mesh stores and the output directory are unchanged, so that no job
  is created. In particular the first toggle on a uid without selection entry (as a uid
  without job is, until it is toggled) answers the empty selection for the id 0 or an
  unreadable id and the selection holding just the id otherwise.
\<close>

theorem toggle_never_not_found:
  "code (fst (api_toggle uid id_param s)) = 200
   \<and> content (fst (api_toggle uid id_param s)) = SelectedBody (toggled id_param (selection_of s uid))
   \<and> SELECTED_HOLES (snd (api_toggle uid id_param s))
       = (SELECTED_HOLES s)(uid \<mapsto> toggled id_param (selection_of s uid))
   \<and> PROGRESS (snd (api_toggle uid id_param s)) = PROGRESS s
   \<and> HOLE_DATA (snd (api_toggle uid id_param s)) = HOLE_DATA s
   \<and> MESH_FILES (snd (api_toggle uid id_param s)) = MESH_FILES s
   \<and> DISK (snd (api_toggle uid id_param s)) = DISK s
   \<and> (SELECTED_HOLES s uid = None \<longrightarrow>
        content (fst (api_toggle uid id_param s))
        = SelectedBody (case id_param of None \<Rightarrow> {} | Some k \<Rightarrow> if k = 0 then {} else {k}))"
proof -
  have first: "SELECTED_HOLES s uid = None \<longrightarrow>
        content (fst (api_toggle uid id_param s))
        = SelectedBody (case id_param of None \<Rightarrow> {} | Some k \<Rightarrow> if k = 0 then {} else {k})"
    unfolding api_toggle_result
    by (cases id_param) (simp_all add: toggled_def selection_of_def)
  have rest: "code (fst (api_toggle uid id_param s)) = 200
   \<and> content (fst (api_toggle uid id_param s)) = SelectedBody (toggled id_param (selection_of s uid))
   \<and> SELECTED_HOLES (snd (api_toggle uid id_param s))
       = (SELECTED_HOLES s)(uid \<mapsto> toggled id_param (selection_of s uid))
   \<and> PROGRESS (snd (api_toggle uid id_param s)) = PROGRESS s
   \<and> HOLE_DATA (snd (api_toggle uid id_param s)) = HOLE_DATA s
   \<and> MESH_FILES (snd (api_toggle uid id_param s)) = MESH_FILES s
   \<and> DISK (snd (api_toggle uid id_param s)) = DISK s"
    unfolding api_toggle_result by simp
  show ?thesis
    using rest first by simp
qed

theorem toggle_never_not_found_witness:
  "SELECTED_HOLES sample_job (Some ''nope'') = None
   \<and> PROGRESS sample_job (Some ''nope'') = None
   \<and> fst (api_toggle (Some ''nope'') (Some 3) sample_job) = \<lparr>code = 200, content = SelectedBody {3}\<rparr>
   \<and> SELECTED_HOLES (snd (api_toggle (Some ''nope'') (Some 3) sample_job)) (Some ''nope'') = Some {3}
   \<and> PROGRESS (snd (api_toggle (Some ''nope'') (Some 3) sample_job)) (Some ''nope'') = None
   \<and> fst (api_toggle (Some ''nope'') (Some 3) (snd (api_toggle (Some ''nope'') (Some 3) sample_job)))
       = \<lparr>code = 200, content = SelectedBody {}\<rparr>
   \<and> SELECTED_HOLES (snd (api_toggle (Some ''nope'') (Some 3)
         (snd (api_toggle (Some ''nope'') (Some 3) sample_job)))) (Some ''nope'') = Some {}"
proof -
  have h: "SELECTED_HOLES sample_job (Some ''nope'') = None"
    and p: "PROGRESS sample_job (Some ''nope'') = None"
    by (simp_all add: sample_job_def empty_state_def)
  note one = toggle_never_not_found [of "Some ''nope''" "Some 3" sample_job]
  note two = toggle_never_not_found [of "Some ''nope''" "Some 3"
      "snd (api_toggle (Some ''nope'') (Some 3) sample_job)"]
  have c1: "content (fst (api_toggle (Some ''nope'') (Some 3) sample_job)) = SelectedBody {3}"
    using one [THEN conjunct2, THEN conjunct2, THEN conjunct2, THEN conjunct2, THEN conjunct2,
        THEN conjunct2, THEN conjunct2, THEN mp, OF h]
    by simp
  have r1: "fst (api_toggle (Some ''nope'') (Some 3) sample_job) = \<lparr>code = 200, content = SelectedBody {3}\<rparr>"
    using one [THEN conjunct1] c1 by (cases "fst (api_toggle (Some ''nope'') (Some 3) sample_job)") simp
  have s1: "SELECTED_HOLES (snd (api_toggle (Some ''nope'') (Some 3) sample_job)) (Some ''nope'') = Some {3}"
    unfolding one [THEN conjunct2, THEN conjunct2, THEN conjunct1]
    by (simp add: toggled_def selection_of_def h)
  have p1: "PROGRESS (snd (api_toggle (Some ''nope'') (Some 3) sample_job)) (Some ''nope'') = None"
    unfolding one [THEN conjunct2, THEN conjunct2, THEN conjunct2, THEN conjunct1] by (rule p)
  have c2: "content (fst (api_toggle (Some ''nope'') (Some 3)
              (snd (api_toggle (Some ''nope'') (Some 3) sample_job)))) = SelectedBody {}"
    unfolding two [THEN conjunct2, THEN conjunct1]
    by (simp add: toggled_def selection_of_def s1)
  have r2: "fst (api_toggle (Some ''nope'') (Some 3) (snd (api_toggle (Some ''nope'') (Some 3) sample_job)))
       = \<lparr>code = 200, content = SelectedBody {}\<rparr>"
    using two [THEN conjunct1] c2
    by (cases "fst (api_toggle (Some ''nope'') (Some 3)
          (snd (api_toggle (Some ''nope'') (Some 3) sample_job)))") simp
  have s2: "SELECTED_HOLES (snd (api_toggle (Some ''nope'') (Some 3)
         (snd (api_toggle (Some ''nope'') (Some 3) sample_job)))) (Some ''nope'') = Some {}"
    unfolding two [THEN conjunct2, THEN conjunct2, THEN conjunct1]
    by (simp add: toggled_def selection_of_def s1)
  show ?thesis
    by (rule conjI [OF h conjI [OF p conjI [OF r1 conjI [OF s1 conjI [OF p1 conjI [OF r2 s2]]]]]])
qed

theorem toggle_unknown_uid_counterexample:
  "PROGRESS sample_job (Some ''nope'') = None
   \<and> HOLE_DATA sample_job (Some ''nope'') = None
   \<and> SELECTED_HOLES sample_job (Some ''nope'') = None
   \<and> fst (api_toggle (Some ''nope'') (Some 3) sample_job) = \<lparr>code = 200, content = SelectedBody {3}\<rparr>
   \<and> code (fst (api_toggle (Some ''nope'') (Some 3) sample_job)) \<noteq> 404
   \<and> SELECTED_HOLES (snd (api_toggle (Some ''nope'') (Some 3) sample_job)) (Some ''nope'') = Some {3}"
  by (simp add: api_toggle_def sample_job_def empty_state_def Let_def)

section \<open>The curve sampler\<close>

lemma length_linspace: "linspace f l n = Some ts \<Longrightarrow> length ts = nat n"
  by (auto simp: linspace_def split: if_splits)

lemma length_parametric_points: "length (parametric_points e n) \<le> nat n"
proof -
  have "length (List.map_filter (curve_value e) ts) \<le> nat n" if "linspace f l n = Some ts" for f l ts
    using length_linspace [OF that] length_filter_le [of "\<lambda>t. curve_value e t \<noteq> None" ts]
    by (simp add: List.map_filter_def)
  then show ?thesis
    by (simp add: parametric_points_def split: option.splits prod.splits)
qed

lemma sample_edge_points_parametric: "sample_edge_points e n = parametric_points e n"
  by (simp add: sample_edge_points_def BRep_Tool_Location_s_def Let_def split: option.splits)

text \<open>
  C8. For every edge and every \<open>n_samples\<close> the sampler returns a finite sequence (a list)
  of at most \<open>n_samples\<close> points, and none for a negative \<open>n_samples\<close>, whichever strategy
  ran and whatever kernel calls failed.
\<close>

theorem sample_edge_points_length:
  "length (sample_edge_points e n_samples) \<le> nat n_samples
   \<and> (0 \<le> n_samples \<longrightarrow> 0 \<le> int (length (sample_edge_points e n_samples))
        \<and> int (length (sample_edge_points e n_samples)) \<le> n_samples)
   \<and> (n_samples < 0 \<longrightarrow> sample_edge_points e n_samples = [])"
proof -
  have le: "length (sample_edge_points e n_samples) \<le> nat n_samples"
    unfolding sample_edge_points_parametric by (rule length_parametric_points)
  have nonneg: "0 \<le> n_samples \<longrightarrow> 0 \<le> int (length (sample_edge_points e n_samples))
        \<and> int (length (sample_edge_points e n_samples)) \<le> n_samples"
    using le by linarith
  have neg: "n_samples < 0 \<longrightarrow> sample_edge_points e n_samples = []"
  proof
    assume "n_samples < 0"
    then have "nat n_samples = 0" by simp
    with le show "sample_edge_points e n_samples = []" by simp
  qed
  show ?thesis by (rule conjI [OF le conjI [OF nonneg neg]])
qed

theorem sample_edge_points_length_witness:
  "(0::int) \<le> 5
   \<and> int (length (sample_edge_points line_edge 5)) \<le> 5
   \<and> length (sample_edge_points line_edge 5) = 5
   \<and> (0::int) \<le> 4
   \<and> int (length (sample_edge_points polygon_only_edge 4)) \<le> 4
   \<and> sample_edge_points polygon_only_edge 4 = []"
proof -
  have h5: "(0::int) \<le> 5" and h4: "(0::int) \<le> 4"
    by simp_all
  note f5 = sample_edge_points_length [of line_edge 5, THEN conjunct2, THEN conjunct1, THEN mp, OF h5]
  note f4 = sample_edge_points_length [of polygon_only_edge 4, THEN conjunct2, THEN conjunct1,
      THEN mp, OF h4]
  have l5: "length (sample_edge_points line_edge 5) = 5"
    by (simp add: sample_edge_points_parametric parametric_points_def line_edge_def linspace_def
        List.map_filter_def)
  have e4: "sample_edge_points polygon_only_edge 4 = []"
    by (simp add: sample_edge_points_parametric parametric_points_def polygon_only_edge_def)
  show ?thesis
    by (rule conjI [OF h5 conjI [OF f5 [THEN conjunct2] conjI [OF l5
          conjI [OF h4 conjI [OF f4 [THEN conjunct2] e4]]]]])
qed

section \<open>The clustering\<close>

lemma length_dbscan_scan: "length (dbscan_scan eps pts idxs labels k) = length labels"
  by (induction idxs arbitrary: labels k) simp_all

lemma length_dbscan_labels: "length (dbscan_labels eps pts) = length pts"
  by (simp add: dbscan_labels_def length_dbscan_scan)

lemma length_cluster_labels: "length (cluster_labels filtered) = length filtered"
  by (simp add: cluster_labels_def length_dbscan_labels features_def Let_def)

lemma cluster_members_subset:
  "length labels = length filtered \<Longrightarrow> set (cluster_members labels filtered lbl) \<subseteq> set filtered"
  by (auto simp: cluster_members_def)

lemma filter_window_idem:
  "filter in_radius_window (filter in_radius_window cs) = filter in_radius_window cs"
  by simp

lemma combine_and_group_filter:
  "combine_and_group cs = combine_and_group (filter in_radius_window cs)"
  by (simp add: combine_and_group_def Let_def)

lemma supporting_sets_filter:
  "supporting_sets cs = supporting_sets (filter in_radius_window cs)"
  by (simp add: supporting_sets_def Let_def)

lemma supporting_sets_window:
  assumes "grp \<in> set (supporting_sets cs)" and "c \<in> set grp"
  shows "c \<in> set cs \<and> RADIUS_MIN \<le> radius c \<and> radius c \<le> RADIUS_MAX"
proof -
  let ?filtered = "filter in_radius_window cs"
  obtain lbl where grp: "grp = cluster_members (cluster_labels ?filtered) ?filtered lbl"
    using assms(1) by (auto simp: supporting_sets_def Let_def)
  have "set grp \<subseteq> set ?filtered"
    unfolding grp by (rule cluster_members_subset [OF length_cluster_labels])
  then have "c \<in> set ?filtered" using assms(2) by (rule subsetD)
  then show ?thesis by (simp add: in_radius_window_def)
qed

lemma build_hole_Some:
  assumes "build_hole k grp = Some h"
  shows "hole_id h = int k + 1 \<and> MIN_VERTICAL_ALIGNMENT \<le> vertical_alignment h"
proof -
  obtain best members where pb: "pick_best grp = (best, members)"
    by (cases "pick_best grp")
  show ?thesis
    using assms unfolding build_hole_def pb Let_def
    by (simp split: if_splits) (cases h, auto)
qed

lemma set_detected_holes_aux:
  "h \<in> set (foldl (hole_step labels filtered) acc lbls) \<Longrightarrow>
   h \<in> set acc \<or> (\<exists>lbl \<in> set lbls. \<exists>k. build_hole k (cluster_members labels filtered lbl) = Some h)"
proof (induction lbls arbitrary: acc)
  case Nil
  then show ?case by simp
next
  case (Cons lbl lbls)
  from Cons.IH [of "hole_step labels filtered acc lbl"] Cons.prems
  have "h \<in> set (hole_step labels filtered acc lbl)
      \<or> (\<exists>l \<in> set lbls. \<exists>k. build_hole k (cluster_members labels filtered l) = Some h)"
    by simp
  then show ?case
  proof
    assume "h \<in> set (hole_step labels filtered acc lbl)"
    then have "h \<in> set acc \<or> build_hole (length acc) (cluster_members labels filtered lbl) = Some h"
      by (auto simp: hole_step_def split: option.splits)
    then show ?thesis by auto
  next
    assume "\<exists>l \<in> set lbls. \<exists>k. build_hole k (cluster_members labels filtered l) = Some h"
    then show ?thesis by auto
  qed
qed

lemma set_detected_holes:
  "h \<in> set (detected_holes labels filtered) \<Longrightarrow>
   \<exists>lbl \<in> set (unique_labels labels). \<exists>k. build_hole k (cluster_members labels filtered lbl) = Some h"
  using set_detected_holes_aux [of h labels filtered "[]" "unique_labels labels"]
  by (simp add: detected_holes_def)

lemma set_rank_holes: "set (rank_holes holes) \<subseteq> set holes"
proof -
  have "set (rank_holes holes)
      \<subseteq> set (filter (\<lambda>h. score h \<ge> MIN_SCORE_THRESHOLD) (sort_key (\<lambda>h. - score h) holes))"
    unfolding rank_holes_def by (rule set_take_subset)
  then show ?thesis by auto
qed

lemma length_renumber: "length (renumber holes) = length holes"
  by (simp add: renumber_def length_enumerate1)

lemma nth_renumber:
  "i < length holes \<Longrightarrow> renumber holes ! i = (holes ! i)\<lparr>hole_id := int (Suc i)\<rparr>"
  by (simp add: renumber_def length_enumerate1 nth_enumerate1)

lemma set_renumber:
  assumes "h \<in> set (renumber holes)"
  shows "\<exists>h0 \<in> set holes. h = h0\<lparr>hole_id := hole_id h\<rparr>"
proof -
  obtain i where i: "i < length holes" and h: "h = renumber holes ! i"
    using assms by (metis in_set_conv_nth length_renumber)
  have "h = (holes ! i)\<lparr>hole_id := hole_id h\<rparr>"
    unfolding h nth_renumber [OF i] by simp
  with i show ?thesis by (intro bexI [of _ "holes ! i"]) simp_all
qed

lemma dbscan_labels_Nil: "dbscan_labels eps [] = []"
  by (simp add: dbscan_labels_def)

lemma ranked_holes_discovered: "ranked_holes cs = rank_holes (discovered_holes cs)"
  by (simp add: ranked_holes_def discovered_holes_def Let_def)

lemma discovered_holes_Nil:
  "filter in_radius_window cs = [] \<Longrightarrow> discovered_holes cs = []"
  by (simp add: discovered_holes_def cluster_labels_def features_def dbscan_labels_Nil
      detected_holes_def unique_labels_def Let_def)

lemma rank_holes_Nil: "rank_holes [] = []"
  by (simp add: rank_holes_def)

lemma renumber_Nil: "renumber [] = []"
  by (simp add: renumber_def enumerate1_def)

lemma combine_and_group_ranked: "combine_and_group cs = renumber (ranked_holes cs)"
proof (cases "filter in_radius_window cs = []")
  case True
  then have "combine_and_group cs = []"
    by (simp add: combine_and_group_def Let_def)
  then show ?thesis
    by (simp add: ranked_holes_discovered discovered_holes_Nil [OF True] rank_holes_Nil renumber_Nil)
next
  case False
  then have "cs \<noteq> []" by auto
  with False show ?thesis
    by (simp add: combine_and_group_def ranked_holes_def Let_def)
qed

lemma hole_has_supporting_set:
  assumes "h \<in> set (combine_and_group cs)"
  shows "\<exists>grp \<in> set (supporting_sets cs). \<exists>k h0.
           build_hole k grp = Some h0 \<and> h = h0\<lparr>hole_id := hole_id h\<rparr>"
proof -
  let ?filtered = "filter in_radius_window cs"
  let ?labels = "cluster_labels ?filtered"
  from assms obtain h0 where h0: "h0 \<in> set (ranked_holes cs)" and h: "h = h0\<lparr>hole_id := hole_id h\<rparr>"
    unfolding combine_and_group_ranked using set_renumber by blast
  from h0 have "h0 \<in> set (detected_holes ?labels ?filtered)"
    using set_rank_holes unfolding ranked_holes_def Let_def by blast
  then obtain lbl k where lbl: "lbl \<in> set (unique_labels ?labels)"
    and b: "build_hole k (cluster_members ?labels ?filtered lbl) = Some h0"
    using set_detected_holes by blast
  have "cluster_members ?labels ?filtered lbl \<in> set (supporting_sets cs)"
    using lbl by (simp add: supporting_sets_def Let_def)
  with b h show ?thesis by blast
qed

text \<open>
  C7. The supporting sets of the aggregate operation hold only candidates of the input whose
  radius lies in the window from \<open>RADIUS_MIN\<close> to \<open>RADIUS_MAX\<close>; every hole returned is
  built, up to its id, from one of these sets; and removing the candidates outside the
  window from the input changes neither the supporting sets nor the holes.
\<close>

theorem out_of_window_candidates_unused:
  "(\<forall>grp \<in> set (supporting_sets cs). \<forall>c \<in> set grp.
       c \<in> set cs \<and> RADIUS_MIN \<le> radius c \<and> radius c \<le> RADIUS_MAX)
   \<and> (\<forall>h \<in> set (combine_and_group cs). \<exists>grp \<in> set (supporting_sets cs). \<exists>k h0.
         build_hole k grp = Some h0 \<and> h = h0\<lparr>hole_id := hole_id h\<rparr>)
   \<and> supporting_sets cs = supporting_sets (filter in_radius_window cs)
   \<and> combine_and_group cs = combine_and_group (filter in_radius_window cs)"
  apply (intro conjI ballI)
       apply (erule (1) supporting_sets_window [THEN conjunct1])
      apply (erule (1) supporting_sets_window [THEN conjunct2, THEN conjunct1])
     apply (erule (1) supporting_sets_window [THEN conjunct2, THEN conjunct2])
    apply (erule hole_has_supporting_set)
   apply (rule supporting_sets_filter)
  apply (rule combine_and_group_filter)
  done

lemma supporting_sets_oversized:
  "supporting_sets [sample_candidate analytic_edge (0, 0, 0) 6, oversized]
     = [[sample_candidate analytic_edge (0, 0, 0) 6]]"
  by (simp add: supporting_sets_def oversized_def sample_candidate_def in_radius_window_def
      RADIUS_MIN_def RADIUS_MAX_def cluster_labels_def features_def dbscan_labels_def
      cluster_of_def expand_def within_eps_def unique_labels_def cluster_members_def
      vx_def vy_def vz_def Let_def)

theorem out_of_window_candidates_unused_witness:
  "[sample_candidate analytic_edge (0, 0, 0) 6]
       \<in> set (supporting_sets [sample_candidate analytic_edge (0, 0, 0) 6, oversized])
   \<and> sample_candidate analytic_edge (0, 0, 0) 6 \<in> set [sample_candidate analytic_edge (0, 0, 0) 6]
   \<and> RADIUS_MIN \<le> radius (sample_candidate analytic_edge (0, 0, 0) 6)
   \<and> radius (sample_candidate analytic_edge (0, 0, 0) 6) \<le> RADIUS_MAX
   \<and> \<not> in_radius_window oversized
   \<and> oversized \<notin> set [sample_candidate analytic_edge (0, 0, 0) 6]
   \<and> combine_and_group [sample_candidate analytic_edge (0, 0, 0) 6, oversized]
       = combine_and_group [sample_candidate analytic_edge (0, 0, 0) 6]"
proof -
  note facts = out_of_window_candidates_unused
      [of "[sample_candidate analytic_edge (0, 0, 0) 6, oversized]"]
  have g: "[sample_candidate analytic_edge (0, 0, 0) 6]
       \<in> set (supporting_sets [sample_candidate analytic_edge (0, 0, 0) 6, oversized])"
    by (simp add: supporting_sets_oversized)
  have m: "sample_candidate analytic_edge (0, 0, 0) 6 \<in> set [sample_candidate analytic_edge (0, 0, 0) 6]"
    by simp
  note r = facts [THEN conjunct1, THEN bspec, OF g, THEN bspec, OF m, THEN conjunct2]
  have o: "\<not> in_radius_window oversized"
    by (simp add: oversized_def sample_candidate_def in_radius_window_def RADIUS_MAX_def)
  have w: "in_radius_window (sample_candidate analytic_edge (0, 0, 0) 6)"
    using r by (simp add: in_radius_window_def)
  have n: "oversized \<notin> set [sample_candidate analytic_edge (0, 0, 0) 6]"
    by (simp add: oversized_def sample_candidate_def)
  have "combine_and_group [sample_candidate analytic_edge (0, 0, 0) 6, oversized]
       = combine_and_group (filter in_radius_window [sample_candidate analytic_edge (0, 0, 0) 6, oversized])"
    by (rule facts [THEN conjunct2, THEN conjunct2, THEN conjunct2])
  then have c: "combine_and_group [sample_candidate analytic_edge (0, 0, 0) 6, oversized]
       = combine_and_group [sample_candidate analytic_edge (0, 0, 0) 6]"
    using o w by simp
  show ?thesis
    by (rule conjI [OF g conjI [OF m conjI [OF r [THEN conjunct1]
          conjI [OF r [THEN conjunct2] conjI [OF o conjI [OF n c]]]]]])
qed

section \<open>Ranking\<close>

lemma hole_step_ids:
  assumes "map hole_id acc = map int [1 ..< Suc (length acc)]"
  shows "map hole_id (hole_step labels filtered acc lbl)
       = map int [1 ..< Suc (length (hole_step labels filtered acc lbl))]"
proof (cases "build_hole (length acc) (cluster_members labels filtered lbl)")
  case None
  then show ?thesis using assms by (simp add: hole_step_def)
next
  case (Some h)
  then have "hole_id h = int (Suc (length acc))"
    using build_hole_Some [OF Some] by simp
  then show ?thesis using assms Some by (simp add: hole_step_def)
qed

lemma foldl_hole_step_ids:
  "map hole_id acc = map int [1 ..< Suc (length acc)] \<Longrightarrow>
   map hole_id (foldl (hole_step labels filtered) acc lbls)
     = map int [1 ..< Suc (length (foldl (hole_step labels filtered) acc lbls))]"
proof (induction lbls arbitrary: acc)
  case Nil
  then show ?case by simp
next
  case (Cons lbl lbls)
  show ?case
    using Cons.IH [OF hole_step_ids [OF Cons.prems]] by simp
qed

lemma detected_holes_ids:
  "map hole_id (detected_holes labels filtered)
     = map int [1 ..< Suc (length (detected_holes labels filtered))]"
  unfolding detected_holes_def by (rule foldl_hole_step_ids) simp

lemma discovered_holes_ids:
  "map hole_id (discovered_holes cs) = map int [1 ..< Suc (length (discovered_holes cs))]"
  unfolding discovered_holes_def Let_def by (rule detected_holes_ids)

lemma dense_ids_increasing:
  assumes "map hole_id xs = map int [1 ..< Suc (length xs)]"
  shows "sorted_wrt (\<lambda>a b. hole_id a < hole_id b) xs"
proof -
  have "sorted_wrt (<) (map int [1 ..< Suc (length xs)])"
    by (simp add: sorted_wrt_map del: upt_Suc)
  then have "sorted_wrt (<) (map hole_id xs)"
    using assms by simp
  then show ?thesis by (simp add: sorted_wrt_map)
qed

lemma insort_ranks_before:
  assumes "sorted_wrt ranks_before ys" and "\<forall>y \<in> set ys. hole_id x < hole_id y"
  shows "sorted_wrt ranks_before (insort_key (\<lambda>h. - score h) x ys)"
  using assms
proof (induction ys)
  case Nil
  then show ?case by simp
next
  case (Cons y ys)
  show ?case
  proof (cases "score y \<le> score x")
    case True
    have "\<forall>z \<in> set (y # ys). ranks_before x z"
    proof
      fix z assume z: "z \<in> set (y # ys)"
      have "score z \<le> score y"
        using z Cons.prems(1) by (auto simp: ranks_before_def)
      with True have "score z \<le> score x" by simp
      moreover have "hole_id x < hole_id z" using z Cons.prems(2) by auto
      ultimately show "ranks_before x z" by (auto simp: ranks_before_def)
    qed
    with True Cons.prems(1) show ?thesis by simp
  next
    case False
    then have yx: "ranks_before y x" by (simp add: ranks_before_def)
    have ih: "sorted_wrt ranks_before (insort_key (\<lambda>h. - score h) x ys)"
      using Cons.IH Cons.prems by simp
    have "\<forall>z \<in> set (insort_key (\<lambda>h. - score h) x ys). ranks_before y z"
      using yx Cons.prems(1) by (simp add: set_insort_key)
    with False ih show ?thesis by simp
  qed
qed

lemma sort_ranks_before:
  "sorted_wrt (\<lambda>a b. hole_id a < hole_id b) xs \<Longrightarrow>
   sorted_wrt ranks_before (sort_key (\<lambda>h. - score h) xs)"
proof (induction xs)
  case Nil
  then show ?case by simp
next
  case (Cons x xs)
  then have "sorted_wrt ranks_before (sort_key (\<lambda>h. - score h) xs)"
    and "\<forall>y \<in> set (sort_key (\<lambda>h. - score h) xs). hole_id x < hole_id y"
    by simp_all
  then show ?case
    using insort_ranks_before by simp
qed

lemma rank_holes_sorted:
  "sorted_wrt (\<lambda>a b. hole_id a < hole_id b) xs \<Longrightarrow> sorted_wrt ranks_before (rank_holes xs)"
  unfolding rank_holes_def
  by (intro sorted_wrt_take sorted_wrt_filter sort_ranks_before)

lemma ranked_holes_sorted: "sorted_wrt ranks_before (ranked_holes cs)"
  unfolding ranked_holes_discovered
  by (rule rank_holes_sorted [OF dense_ids_increasing [OF discovered_holes_ids]])

lemma length_rank_holes: "length (rank_holes xs) \<le> MAX_CANDIDATES"
  by (simp add: rank_holes_def)

lemma rank_holes_threshold: "h \<in> set (rank_holes xs) \<Longrightarrow> MIN_SCORE_THRESHOLD \<le> score h"
proof -
  assume "h \<in> set (rank_holes xs)"
  then have "h \<in> set (filter (\<lambda>h. score h \<ge> MIN_SCORE_THRESHOLD) (sort_key (\<lambda>h. - score h) xs))"
    unfolding rank_holes_def by (rule in_set_takeD)
  then show ?thesis by simp
qed

lemma discovered_holes_aligned:
  assumes "h \<in> set (discovered_holes cs)"
  shows "MIN_VERTICAL_ALIGNMENT \<le> vertical_alignment h"
proof -
  obtain lbl k grp where "build_hole k grp = Some h"
    using set_detected_holes assms unfolding discovered_holes_def Let_def by blast
  then show ?thesis using build_hole_Some by blast
qed

lemma map_hole_id_renumber:
  "map hole_id (renumber xs) = map int [1 ..< Suc (length xs)]"
  by (rule nth_equalityI) (simp_all add: length_renumber nth_renumber nth_upt del: upt_Suc)

lemma map_score_renumber: "map score (renumber xs) = map score xs"
  by (rule nth_equalityI) (simp_all add: length_renumber nth_renumber)

lemma ranks_before_score: "ranks_before a b \<Longrightarrow> score b \<le> score a"
  by (auto simp: ranks_before_def)

lemma renumber_sorted:
  assumes "sorted_wrt ranks_before xs"
  shows "sorted_wrt (\<lambda>a b. score b \<le> score a) (renumber xs)"
proof -
  have "sorted_wrt (\<lambda>a b. score b \<le> score a) xs"
    using assms ranks_before_score by (rule sorted_wrt_mono_rel [rotated]) 
  then have "sorted_wrt (\<lambda>x y. y \<le> x) (map score xs)"
    by (simp add: sorted_wrt_map)
  then have "sorted_wrt (\<lambda>x y. y \<le> x) (map score (renumber xs))"
    by (simp only: map_score_renumber)
  then show ?thesis by (simp add: sorted_wrt_map)
qed

lemma combine_and_group_members:
  assumes "h \<in> set (combine_and_group cs)"
  shows "MIN_VERTICAL_ALIGNMENT \<le> vertical_alignment h \<and> MIN_SCORE_THRESHOLD \<le> score h"
proof -
  obtain h0 where h0: "h0 \<in> set (ranked_holes cs)" and h: "h = h0\<lparr>hole_id := hole_id h\<rparr>"
    using assms set_renumber unfolding combine_and_group_ranked by blast
  have "h0 \<in> set (discovered_holes cs)"
    using h0 set_rank_holes unfolding ranked_holes_discovered by blast
  then have a: "MIN_VERTICAL_ALIGNMENT \<le> vertical_alignment h0"
    by (rule discovered_holes_aligned)
  have s: "MIN_SCORE_THRESHOLD \<le> score h0"
    using h0 unfolding ranked_holes_discovered by (rule rank_holes_threshold)
  have "vertical_alignment h = vertical_alignment h0" "score h = score h0"
    by (subst h, simp)+
  with a s show ?thesis by simp
qed

text \<open>
  C2. For every input sequence, every hole returned by the aggregate operation has
  \<open>vertical_alignment \<ge> MIN_VERTICAL_ALIGNMENT\<close> and \<open>score \<ge> MIN_SCORE_THRESHOLD\<close>; the
  list has at most \<open>MAX_CANDIDATES\<close> holes; it is sorted descending by score; its ids are
  1, 2, ... in the final order. It is the ranked list with the ids rewritten, and in the
  ranked list, where the id of a hole is still its rank of discovery among the clusters
  kept, a hole stands before another only if its score is greater, or equal with the
  earlier discovery.
\<close>

theorem combine_and_group_invariant:
  "(\<forall>h \<in> set (combine_and_group cs).
       MIN_VERTICAL_ALIGNMENT \<le> vertical_alignment h \<and> MIN_SCORE_THRESHOLD \<le> score h)
   \<and> length (combine_and_group cs) \<le> MAX_CANDIDATES
   \<and> sorted_wrt (\<lambda>a b. score b \<le> score a) (combine_and_group cs)
   \<and> map hole_id (combine_and_group cs) = map int [1 ..< Suc (length (combine_and_group cs))]
   \<and> length (ranked_holes cs) = length (combine_and_group cs)
   \<and> (\<forall>i < length (combine_and_group cs).
         combine_and_group cs ! i = (ranked_holes cs ! i)\<lparr>hole_id := int (Suc i)\<rparr>)
   \<and> sorted_wrt ranks_before (ranked_holes cs)
   \<and> set (ranked_holes cs) \<subseteq> set (discovered_holes cs)
   \<and> map hole_id (discovered_holes cs) = map int [1 ..< Suc (length (discovered_holes cs))]"
proof -
  have members: "\<forall>h \<in> set (combine_and_group cs).
       MIN_VERTICAL_ALIGNMENT \<le> vertical_alignment h \<and> MIN_SCORE_THRESHOLD \<le> score h"
    using combine_and_group_members by blast
  have len: "length (combine_and_group cs) \<le> MAX_CANDIDATES"
    unfolding combine_and_group_ranked length_renumber ranked_holes_discovered
    by (rule length_rank_holes)
  have sorted: "sorted_wrt (\<lambda>a b. score b \<le> score a) (combine_and_group cs)"
    unfolding combine_and_group_ranked by (rule renumber_sorted [OF ranked_holes_sorted])
  have ids: "map hole_id (combine_and_group cs) = map int [1 ..< Suc (length (combine_and_group cs))]"
    unfolding combine_and_group_ranked length_renumber by (rule map_hole_id_renumber)
  have same_len: "length (ranked_holes cs) = length (combine_and_group cs)"
    unfolding combine_and_group_ranked length_renumber by (rule refl)
  have nth: "\<forall>i < length (combine_and_group cs).
         combine_and_group cs ! i = (ranked_holes cs ! i)\<lparr>hole_id := int (Suc i)\<rparr>"
    unfolding combine_and_group_ranked length_renumber by (intro allI impI) (rule nth_renumber)
  have sub: "set (ranked_holes cs) \<subseteq> set (discovered_holes cs)"
    unfolding ranked_holes_discovered by (rule set_rank_holes)
  show ?thesis
    by (rule conjI [OF members conjI [OF len conjI [OF sorted conjI [OF ids conjI [OF same_len
          conjI [OF nth conjI [OF ranked_holes_sorted conjI [OF sub discovered_holes_ids]]]]]]]])
qed

section \<open>Two agreeing sources\<close>

lemma dbscan_labels_pair:
  "within_eps eps p q \<Longrightarrow> dbscan_labels eps [p, q] = [0, 0]"
  by (simp add: dbscan_labels_def cluster_of_def expand_def upt_conv_Cons numeral_2_eq_2)

lemma features_pair:
  "features [a, c] =
     [(vx (center a), vy (center a), vz (center a) / 3), (vx (center c), vy (center c), vz (center c) / 3)]"
  by (simp add: features_def Z_TOLERANCE_def CIRCLE_GROUPING_DISTANCE_def Let_def)

lemma within_eps_scaled:
  assumes "sqrt ((x1 - x2)\<^sup>2 + (y1 - y2)\<^sup>2 + (z1 - z2)\<^sup>2) \<le> E"
  shows "within_eps E (x1, y1, z1 / 3) (x2, y2, z2 / 3)"
proof -
  have whole: "(x1 - x2)\<^sup>2 + (y1 - y2)\<^sup>2 + (z1 - z2)\<^sup>2 \<le> E\<^sup>2"
    using assms by (rule sqrt_le_D)
  have "(z1 / 3 - z2 / 3)\<^sup>2 = ((z1 - z2) / 3)\<^sup>2"
    by (simp add: diff_divide_distrib)
  also have "\<dots> = (z1 - z2)\<^sup>2 / 9"
    by (simp add: power_divide)
  also have "\<dots> \<le> (z1 - z2)\<^sup>2"
    by simp
  finally have "(x1 - x2)\<^sup>2 + (y1 - y2)\<^sup>2 + (z1 / 3 - z2 / 3)\<^sup>2 \<le> E\<^sup>2"
    using whole by linarith
  then show ?thesis
    by (simp add: within_eps_def vx_def vy_def vz_def)
qed

lemma centres_within_eps:
  assumes "center_distance a c \<le> CIRCLE_GROUPING_DISTANCE"
  shows "within_eps CIRCLE_GROUPING_DISTANCE
           (vx (center a), vy (center a), vz (center a) / 3)
           (vx (center c), vy (center c), vz (center c) / 3)"
  using assms unfolding center_distance_def by (rule within_eps_scaled)

lemma cluster_labels_pair:
  assumes "center_distance a c \<le> CIRCLE_GROUPING_DISTANCE"
  shows "cluster_labels [a, c] = [0, 0]"
  unfolding cluster_labels_def features_pair
  by (rule dbscan_labels_pair [OF centres_within_eps [OF assms]])

lemma supporting_sets_pair:
  assumes "in_radius_window a" "in_radius_window c"
    and "center_distance a c \<le> CIRCLE_GROUPING_DISTANCE"
  shows "supporting_sets [a, c] = [[a, c]]"
  using assms(1,2)
  by (simp add: supporting_sets_def Let_def cluster_labels_pair [OF assms(3)] unique_labels_def
      cluster_members_def upt_conv_Cons numeral_2_eq_2)

lemma discovered_holes_pair:
  assumes "in_radius_window a" "in_radius_window c"
    and "center_distance a c \<le> CIRCLE_GROUPING_DISTANCE"
  shows "discovered_holes [a, c] = (case build_hole 0 [a, c] of None \<Rightarrow> [] | Some h \<Rightarrow> [h])"
  using assms(1,2)
  by (simp add: discovered_holes_def Let_def cluster_labels_pair [OF assms(3)] unique_labels_def
      cluster_members_def detected_holes_def hole_step_def upt_conv_Cons numeral_2_eq_2
      split: option.splits)

lemma median_pair: "median [x, y] = (x + y) / 2"
  by (cases "x \<le> y") (simp_all add: median_def Let_def)

lemma fused_axis_vz:
  "vz (fused_axis grp) =
     vz (weighted_average (map axis_or_default grp) (map weight grp))
       / (norm3 (weighted_average (map axis_or_default grp) (map weight grp)) + 1 / 10 ^ 10)"
  by (simp only: fused_axis_def Let_def vz_def snd_conv)

lemma abs_vz_le_norm3: "\<bar>vz v\<bar> \<le> norm3 v"
proof -
  have "\<bar>vz v\<bar>\<^sup>2 \<le> (vx v)\<^sup>2 + (vy v)\<^sup>2 + (vz v)\<^sup>2"
    by simp
  then show ?thesis
    unfolding norm3_def by (rule real_le_rsqrt)
qed

lemma scaled_abs_le_1:
  fixes z n e :: real
  assumes "\<bar>z\<bar> \<le> n" and "0 < e"
  shows "\<bar>z / (n + e)\<bar> \<le> 1"
proof -
  have "0 < n + e" using assms by linarith
  moreover have "\<bar>z\<bar> \<le> n + e" using assms by linarith
  ultimately show ?thesis by (simp add: divide_le_eq)
qed

lemma fused_alignment_le_1: "\<bar>vz (fused_axis grp)\<bar> \<le> 1"
  unfolding fused_axis_vz by (rule scaled_abs_le_1 [OF abs_vz_le_norm3]) simp

lemma pick_best_analytic_pair:
  "is_analytic p \<Longrightarrow> is_analytic q \<Longrightarrow> pick_best [p, q] = (hd (sort_by_z_desc [p, q]), [p, q])"
  by (simp add: pick_best_def Let_def)

lemma build_hole_pair:
  assumes "is_analytic p" "is_analytic q"
    and "MIN_VERTICAL_ALIGNMENT \<le> \<bar>vz (fused_axis [p, q])\<bar>"
  shows "build_hole k [p, q] =
    Some \<lparr> hole_id = int k + 1,
           hole_center = ((vx (center p) + vx (center q)) / 2, (vy (center p) + vy (center q)) / 2,
                          (vz (center p) + vz (center q)) / 2),
           hole_radius = (radius p + radius q) / 2,
           num_circles = 2,
           z_depth = list_max [vz (center p), vz (center q)] - list_min [vz (center p), vz (center q)],
           vertical_alignment = \<bar>vz (fused_axis [p, q])\<bar>,
           score = calculate_hole_score [p, q] (hd (sort_by_z_desc [p, q]))
                     ((radius p + radius q) / 2) \<bar>vz (fused_axis [p, q])\<bar>,
           sources = {source p, source q} \<rparr>"
  using assms(3)
  by (simp add: build_hole_def pick_best_analytic_pair [OF assms(1,2)] median_pair Let_def)

lemma calculate_hole_score_pair:
  assumes "source p = analytic_edge \<and> source q = cylindrical_face
           \<or> source p = cylindrical_face \<and> source q = analytic_edge"
    and "MIN_VERTICAL_ALIGNMENT \<le> al" and "al \<le> 1"
  shows "calculate_hole_score [p, q] best r al =
           max 0 (25 - \<bar>r - 55 / 10\<bar> * (3 / 2))
           + (al - MIN_VERTICAL_ALIGNMENT) / (1 - MIN_VERTICAL_ALIGNMENT) * 15 + 24 + 15 + 10"
proof -
  define r_term where "r_term = max 0 (25 - \<bar>r - 55 / 10\<bar> * (3 / 2))"
  define a_term where "a_term = (al - MIN_VERTICAL_ALIGNMENT) / (1 - MIN_VERTICAL_ALIGNMENT) * 15"
  have rt: "0 \<le> r_term" "r_term \<le> 25"
    by (simp_all add: r_term_def)
  have a_bounds: "0 \<le> a_term" "a_term \<le> 15"
    using assms(2,3) by (simp_all add: a_term_def MIN_VERTICAL_ALIGNMENT_def)
  have srcs: "cylindrical_face \<in> source ` set [p, q]" "analytic_edge \<in> source ` set [p, q]"
    "fitted_edge \<notin> source ` set [p, q]"
    using assms(1) by auto
  have "calculate_hole_score [p, q] best r al = max 0 (min 100 (r_term + a_term + 24 + 15 + 10))"
    unfolding calculate_hole_score_def Let_def
    using assms(2) srcs by (simp add: r_term_def a_term_def)
  also have "\<dots> = r_term + a_term + 24 + 15 + 10"
    using rt a_bounds by simp
  finally show ?thesis
    by (simp add: r_term_def a_term_def)
qed

lemma weighted_mean_bounds:
  fixes u v wu wv lo hi :: real
  assumes "0 < wu" "0 < wv" "lo \<le> u" "u \<le> hi" "lo \<le> v" "v \<le> hi"
  shows "lo \<le> (u * wu + v * wv) / (wu + wv) \<and> (u * wu + v * wv) / (wu + wv) \<le> hi"
proof -
  have "lo * wu \<le> u * wu" "u * wu \<le> hi * wu" "lo * wv \<le> v * wv" "v * wv \<le> hi * wv"
    using assms by (simp_all add: mult_right_mono)
  then have "lo * (wu + wv) \<le> u * wu + v * wv" "u * wu + v * wv \<le> hi * (wu + wv)"
    by (simp_all add: distrib_left)
  moreover have "0 < wu + wv" using assms by simp
  ultimately show ?thesis
    by (simp add: le_divide_eq divide_le_eq)
qed

lemma weight_pos: "0 < weight g"
  by (simp add: weight_def)

lemma norm3_le_sum_abs: "norm3 v \<le> \<bar>vx v\<bar> + \<bar>vy v\<bar> + \<bar>vz v\<bar>"
proof -
  have "norm3 v = sqrt ((sqrt ((vx v)\<^sup>2 + (vy v)\<^sup>2))\<^sup>2 + (vz v)\<^sup>2)"
    by (simp add: norm3_def)
  also have "\<dots> \<le> \<bar>sqrt ((vx v)\<^sup>2 + (vy v)\<^sup>2)\<bar> + \<bar>vz v\<bar>"
    by (rule sqrt_sum_squares_le_sum_abs)
  also have "\<dots> \<le> \<bar>vx v\<bar> + \<bar>vy v\<bar> + \<bar>vz v\<bar>"
    using sqrt_sum_squares_le_sum_abs [of "vx v" "vy v"] by simp
  finally show ?thesis .
qed

lemma near_vertical_pair_aligned:
  assumes "near_vertical p" "near_vertical q"
  shows "MIN_VERTICAL_ALIGNMENT \<le> \<bar>vz (fused_axis [p, q])\<bar>"
proof -
  define v where "v = weighted_average (map axis_or_default [p, q]) (map weight [p, q])"
  have comps:
    "vx v = (vx (axis_or_default p) * weight p + vx (axis_or_default q) * weight q) / (weight p + weight q)"
    "vy v = (vy (axis_or_default p) * weight p + vy (axis_or_default q) * weight q) / (weight p + weight q)"
    "vz v = (vz (axis_or_default p) * weight p + vz (axis_or_default q) * weight q) / (weight p + weight q)"
    by (simp_all add: v_def weighted_average_def Let_def vx_def vy_def vz_def)
  have bp: "- (1 / 10) \<le> vx (axis_or_default p)" "vx (axis_or_default p) \<le> 1 / 10"
    "- (1 / 10) \<le> vy (axis_or_default p)" "vy (axis_or_default p) \<le> 1 / 10"
    "9 / 10 \<le> vz (axis_or_default p)" "vz (axis_or_default p) \<le> 11 / 10"
    using assms(1) unfolding near_vertical_def by linarith+
  have bq: "- (1 / 10) \<le> vx (axis_or_default q)" "vx (axis_or_default q) \<le> 1 / 10"
    "- (1 / 10) \<le> vy (axis_or_default q)" "vy (axis_or_default q) \<le> 1 / 10"
    "9 / 10 \<le> vz (axis_or_default q)" "vz (axis_or_default q) \<le> 11 / 10"
    using assms(2) unfolding near_vertical_def by linarith+
  have x: "- (1 / 10) \<le> vx v \<and> vx v \<le> 1 / 10"
    unfolding comps by (rule weighted_mean_bounds [OF weight_pos weight_pos bp(1,2) bq(1,2)])
  have y: "- (1 / 10) \<le> vy v \<and> vy v \<le> 1 / 10"
    unfolding comps by (rule weighted_mean_bounds [OF weight_pos weight_pos bp(3,4) bq(3,4)])
  have z: "9 / 10 \<le> vz v \<and> vz v \<le> 11 / 10"
    unfolding comps by (rule weighted_mean_bounds [OF weight_pos weight_pos bp(5,6) bq(5,6)])
  have n: "norm3 v \<le> 13 / 10"
    using norm3_le_sum_abs [of v] x y z by linarith
  have n0: "0 \<le> norm3 v"
    by (simp add: norm3_def)
  define d where "d = norm3 v + 1 / 10 ^ 10"
  have d: "0 < d" "d \<le> 2"
    using n n0 by (simp_all add: d_def)
  have "MIN_VERTICAL_ALIGNMENT * d \<le> vz v"
    using d z by (simp add: MIN_VERTICAL_ALIGNMENT_def)
  then have "MIN_VERTICAL_ALIGNMENT \<le> vz v / d"
    using d(1) by (simp add: le_divide_eq)
  also have "\<dots> \<le> \<bar>vz v / d\<bar>"
    by (rule abs_ge_self)
  finally show ?thesis
    unfolding fused_axis_vz v_def [symmetric] d_def .
qed

lemma center_distance_commute: "center_distance c a = center_distance a c"
  by (simp add: center_distance_def power2_commute)

lemma rank_holes_single:
  "MIN_SCORE_THRESHOLD \<le> score h \<Longrightarrow> rank_holes [h] = [h]"
  by (simp add: rank_holes_def MAX_CANDIDATES_def)

lemma renumber_single: "renumber [h] = [h\<lparr>hole_id := 1\<rparr>]"
  by (simp add: renumber_def enumerate1_def)

lemma combine_and_group_pair:
  assumes src: "source p = analytic_edge \<and> source q = cylindrical_face
                \<or> source p = cylindrical_face \<and> source q = analytic_edge"
    and win: "in_radius_window p" "in_radius_window q"
    and dist: "center_distance p q \<le> CIRCLE_GROUPING_DISTANCE"
    and near: "near_vertical p" "near_vertical q"
  shows "combine_and_group [p, q] =
    [\<lparr> hole_id = 1,
        hole_center = ((vx (center p) + vx (center q)) / 2, (vy (center p) + vy (center q)) / 2,
                       (vz (center p) + vz (center q)) / 2),
        hole_radius = (radius p + radius q) / 2,
        num_circles = 2,
        z_depth = list_max [vz (center p), vz (center q)] - list_min [vz (center p), vz (center q)],
        vertical_alignment = \<bar>vz (fused_axis [p, q])\<bar>,
        score = max 0 (25 - \<bar>(radius p + radius q) / 2 - 55 / 10\<bar> * (3 / 2))
                + (\<bar>vz (fused_axis [p, q])\<bar> - MIN_VERTICAL_ALIGNMENT) / (1 - MIN_VERTICAL_ALIGNMENT) * 15
                + 24 + 15 + 10,
        sources = {analytic_edge, cylindrical_face} \<rparr>]"
proof -
  define al where "al = \<bar>vz (fused_axis [p, q])\<bar>"
  have an: "is_analytic p" "is_analytic q"
    using src by (auto simp: is_analytic_def)
  have al: "MIN_VERTICAL_ALIGNMENT \<le> al" "al \<le> 1"
    unfolding al_def by (rule near_vertical_pair_aligned [OF near], rule fused_alignment_le_1)
  have srcs: "{source p, source q} = {analytic_edge, cylindrical_face}"
    using src by auto
  define sc where "sc = max 0 (25 - \<bar>(radius p + radius q) / 2 - 55 / 10\<bar> * (3 / 2))
                + (al - MIN_VERTICAL_ALIGNMENT) / (1 - MIN_VERTICAL_ALIGNMENT) * 15 + 24 + 15 + 10"
  have sc: "calculate_hole_score [p, q] (hd (sort_by_z_desc [p, q])) ((radius p + radius q) / 2) al = sc"
    unfolding sc_def by (rule calculate_hole_score_pair [OF src al])
  have "0 \<le> (al - MIN_VERTICAL_ALIGNMENT) / (1 - MIN_VERTICAL_ALIGNMENT) * 15"
    using al(1) by (simp add: MIN_VERTICAL_ALIGNMENT_def)
  then have sc20: "MIN_SCORE_THRESHOLD \<le> sc"
    unfolding sc_def MIN_SCORE_THRESHOLD_def by (simp add: max_def)
  define h where "h =
    \<lparr> hole_id = int 0 + 1,
      hole_center = ((vx (center p) + vx (center q)) / 2, (vy (center p) + vy (center q)) / 2,
                     (vz (center p) + vz (center q)) / 2),
      hole_radius = (radius p + radius q) / 2,
      num_circles = 2,
      z_depth = list_max [vz (center p), vz (center q)] - list_min [vz (center p), vz (center q)],
      vertical_alignment = al,
      score = sc,
      sources = {analytic_edge, cylindrical_face} \<rparr>"
  have b: "build_hole 0 [p, q] = Some h"
    unfolding h_def using build_hole_pair [OF an al(1) [unfolded al_def], of 0]
    by (simp only: al_def [symmetric] sc srcs)
  have d: "discovered_holes [p, q] = [h]"
    unfolding discovered_holes_pair [OF win dist] b by simp
  have "score h = sc" by (simp add: h_def)
  with sc20 have r: "rank_holes [h] = [h]"
    by (simp add: rank_holes_single)
  have "combine_and_group [p, q] = [h\<lparr>hole_id := 1\<rparr>]"
    unfolding combine_and_group_ranked ranked_holes_discovered d r by (rule renumber_single)
  then show ?thesis
    by (simp add: h_def sc_def al_def)
qed

lemma two_sources_facts:
  "source (sample_candidate analytic_edge (0, 0, 0) 6) = analytic_edge"
  "source (sample_candidate cylindrical_face (1, 0, 3) 6) = cylindrical_face"
  "in_radius_window (sample_candidate analytic_edge (0, 0, 0) 6)"
  "in_radius_window (sample_candidate cylindrical_face (1, 0, 3) 6)"
  "near_vertical (sample_candidate analytic_edge (0, 0, 0) 6)"
  "near_vertical (sample_candidate cylindrical_face (1, 0, 3) 6)"
  by (simp_all add: sample_candidate_def in_radius_window_def RADIUS_MIN_def RADIUS_MAX_def
      near_vertical_def axis_or_default_def vx_def vy_def vz_def)

lemma two_sources_distance:
  "center_distance (sample_candidate analytic_edge (0, 0, 0) 6)
     (sample_candidate cylindrical_face (1, 0, 3) 6) \<le> CIRCLE_GROUPING_DISTANCE"
proof -
  have "sqrt 10 \<le> 4"
    by (rule real_le_lsqrt) simp_all
  then show ?thesis
    by (simp add: center_distance_def sample_candidate_def CIRCLE_GROUPING_DISTANCE_def
        vx_def vy_def vz_def)
qed

lemma length_combine_two_sources: "length (combine_and_group two_sources) = 1"
proof -
  have src: "source (sample_candidate analytic_edge (0, 0, 0) 6) = analytic_edge
             \<and> source (sample_candidate cylindrical_face (1, 0, 3) 6) = cylindrical_face
           \<or> source (sample_candidate analytic_edge (0, 0, 0) 6) = cylindrical_face
             \<and> source (sample_candidate cylindrical_face (1, 0, 3) 6) = analytic_edge"
    using two_sources_facts(1,2) by simp
  show ?thesis
    unfolding two_sources_def
      combine_and_group_pair [OF src two_sources_facts(3,4) two_sources_distance two_sources_facts(5,6)]
    by simp
qed

text \<open>
  C5. Let \<open>a\<close> be an AnalyticEdge candidate and \<open>c\<close> a CylindricalFace candidate, both
  with a radius in the window (as a radius near 6.0 is) and an axis within one tenth of
  \<open>(0, 0, 1)\<close> in every component, whose centres are at most \<open>CIRCLE_GROUPING_DISTANCE\<close>
  apart. On the input of these two candidates, in either order, the aggregate operation
  returns exactly one hole, with id 1, \<open>num_circles = 2\<close>, sources
  \<open>{AnalyticEdge, CylindricalFace}\<close>, the mean of the two radii as radius, one supporting
  set holding both candidates, and the score: radius term + alignment term + 24 for two
  supporting candidates + 15 for the cylindrical face + 10 for the analytic edge, unclamped.
\<close>

theorem two_agreeing_sources_merge:
  assumes "source a = analytic_edge" and "source c = cylindrical_face"
    and "in_radius_window a" and "in_radius_window c"
    and "center_distance a c \<le> CIRCLE_GROUPING_DISTANCE"
    and "near_vertical a" and "near_vertical c"
    and "cs = [a, c] \<or> cs = [c, a]"
  shows "\<exists>h. combine_and_group cs = [h]
    \<and> hole_id h = 1
    \<and> num_circles h = 2
    \<and> sources h = {analytic_edge, cylindrical_face}
    \<and> hole_radius h = (radius a + radius c) / 2
    \<and> score h = max 0 (25 - \<bar>hole_radius h - 55 / 10\<bar> * (3 / 2))
                + (vertical_alignment h - MIN_VERTICAL_ALIGNMENT) / (1 - MIN_VERTICAL_ALIGNMENT) * 15
                + 24 + 15 + 10
    \<and> supporting_sets cs = [cs]"
  using assms(8)
proof
  assume cs: "cs = [a, c]"
  have src: "source a = analytic_edge \<and> source c = cylindrical_face
             \<or> source a = cylindrical_face \<and> source c = analytic_edge"
    using assms(1,2) by simp
  show ?thesis
    unfolding cs combine_and_group_pair [OF src assms(3,4,5,6,7)]
      supporting_sets_pair [OF assms(3,4,5)]
    by simp
next
  assume cs: "cs = [c, a]"
  have src: "source c = analytic_edge \<and> source a = cylindrical_face
             \<or> source c = cylindrical_face \<and> source a = analytic_edge"
    using assms(1,2) by simp
  have dist: "center_distance c a \<le> CIRCLE_GROUPING_DISTANCE"
    using assms(5) by (simp only: center_distance_commute)
  show ?thesis
    unfolding cs combine_and_group_pair [OF src assms(4,3) dist assms(7,6)]
      supporting_sets_pair [OF assms(4,3) dist]
    by (simp add: add.commute)
qed

theorem two_agreeing_sources_merge_witness:
  "source (sample_candidate analytic_edge (0, 0, 0) 6) = analytic_edge
   \<and> source (sample_candidate cylindrical_face (1, 0, 3) 6) = cylindrical_face
   \<and> in_radius_window (sample_candidate analytic_edge (0, 0, 0) 6)
   \<and> in_radius_window (sample_candidate cylindrical_face (1, 0, 3) 6)
   \<and> center_distance (sample_candidate analytic_edge (0, 0, 0) 6)
        (sample_candidate cylindrical_face (1, 0, 3) 6) \<le> CIRCLE_GROUPING_DISTANCE
   \<and> near_vertical (sample_candidate analytic_edge (0, 0, 0) 6)
   \<and> near_vertical (sample_candidate cylindrical_face (1, 0, 3) 6)
   \<and> (\<exists>h. combine_and_group two_sources = [h] \<and> num_circles h = 2
          \<and> sources h = {analytic_edge, cylindrical_face} \<and> hole_radius h = 6)"
proof -
  have cs: "two_sources = [sample_candidate analytic_edge (0, 0, 0) 6,
                           sample_candidate cylindrical_face (1, 0, 3) 6]
            \<or> two_sources = [sample_candidate cylindrical_face (1, 0, 3) 6,
                               sample_candidate analytic_edge (0, 0, 0) 6]"
    by (simp add: two_sources_def)
  have r: "(radius (sample_candidate analytic_edge (0, 0, 0) 6)
            + radius (sample_candidate cylindrical_face (1, 0, 3) 6)) / 2 = 6"
    by (simp add: sample_candidate_def)
  obtain h where h: "combine_and_group two_sources = [h]" "num_circles h = 2"
      "sources h = {analytic_edge, cylindrical_face}"
      "hole_radius h = (radius (sample_candidate analytic_edge (0, 0, 0) 6)
            + radius (sample_candidate cylindrical_face (1, 0, 3) 6)) / 2"
    using two_agreeing_sources_merge [OF two_sources_facts(1,2,3,4) two_sources_distance
        two_sources_facts(5,6) cs]
    by blast
  have e: "\<exists>h. combine_and_group two_sources = [h] \<and> num_circles h = 2
          \<and> sources h = {analytic_edge, cylindrical_face} \<and> hole_radius h = 6"
    using h r by (intro exI [of _ h]) simp
  show ?thesis
    by (rule conjI [OF two_sources_facts(1) conjI [OF two_sources_facts(2)
          conjI [OF two_sources_facts(3) conjI [OF two_sources_facts(4)
          conjI [OF two_sources_distance conjI [OF two_sources_facts(5)
          conjI [OF two_sources_facts(6) e]]]]]]])
qed

theorem combine_and_group_invariant_witness:
  "hd (combine_and_group two_sources) \<in> set (combine_and_group two_sources)
   \<and> MIN_VERTICAL_ALIGNMENT \<le> vertical_alignment (hd (combine_and_group two_sources))
   \<and> MIN_SCORE_THRESHOLD \<le> score (hd (combine_and_group two_sources))
   \<and> length (combine_and_group two_sources) = 1
   \<and> length (combine_and_group two_sources) \<le> MAX_CANDIDATES
   \<and> map hole_id (combine_and_group two_sources) = [1]"
proof -
  note facts = combine_and_group_invariant [of two_sources]
  have src: "source (sample_candidate analytic_edge (0, 0, 0) 6) = analytic_edge
             \<and> source (sample_candidate cylindrical_face (1, 0, 3) 6) = cylindrical_face
           \<or> source (sample_candidate analytic_edge (0, 0, 0) 6) = cylindrical_face
             \<and> source (sample_candidate cylindrical_face (1, 0, 3) 6) = analytic_edge"
    using two_sources_facts(1,2) by simp
  have len: "length (combine_and_group two_sources) = 1"
    unfolding two_sources_def
      combine_and_group_pair [OF src two_sources_facts(3,4) two_sources_distance two_sources_facts(5,6)]
    by simp
  then have ne: "combine_and_group two_sources \<noteq> []"
    by auto
  have mem: "hd (combine_and_group two_sources) \<in> set (combine_and_group two_sources)"
    using ne by (rule hd_in_set)
  note bounds = facts [THEN conjunct1, THEN bspec, OF mem]
  note cap = facts [THEN conjunct2, THEN conjunct1]
  have ids: "map hole_id (combine_and_group two_sources) = [1]"
    using facts [THEN conjunct2, THEN conjunct2, THEN conjunct2, THEN conjunct1]
    unfolding len by simp
  show ?thesis
    by (rule conjI [OF mem conjI [OF bounds [THEN conjunct1] conjI [OF bounds [THEN conjunct2]
          conjI [OF len conjI [OF cap ids]]]]])
qed

section \<open>The job pipeline\<close>

lemma finish_job_progress:
  "PROGRESS (finish_job uid st mesh holes s) (Some uid) = Some \<lparr>percent = 100, status = st\<rparr>"
  by (simp add: finish_job_def)

lemma process_error_outcome:
  "job_body K uid step_path quality s0 = Inl (e, s) \<Longrightarrow>
   error_outcome uid e (process_step_file_async K uid step_path quality s0)"
  by (simp add: process_step_file_async_def finish_job_def error_outcome_def)

lemma job_body_returns_finished:
  assumes "job_body K uid step_path quality s0 = Inr s"
  shows "\<exists>st. PROGRESS s (Some uid) = Some \<lparr>percent = 100, status = st\<rparr>"
proof -
  have "\<exists>st mesh holes s'. s = finish_job uid st mesh holes s'"
    using assms unfolding job_body_def Let_def
    by (simp split: sum.splits option.splits prod.splits if_splits) blast+
  then show ?thesis
    using finish_job_progress by blast
qed

lemma process_finishes:
  "\<exists>st. PROGRESS (process_step_file_async K uid step_path quality s0) (Some uid)
          = Some \<lparr>percent = 100, status = st\<rparr>"
proof (cases "job_body K uid step_path quality s0")
  case (Inl a)
  then show ?thesis
    by (cases a) (simp add: process_step_file_async_def finish_job_progress)
next
  case (Inr s)
  then show ?thesis
    using job_body_returns_finished [OF Inr] by (simp add: process_step_file_async_def)
qed

lemma load_failure:
  "load_step_shape K step_path = Inl e \<Longrightarrow>
   error_outcome uid e (process_step_file_async K uid step_path quality s0)"
  by (simp add: job_body_def process_step_file_async_def finish_job_def error_outcome_def
      set_progress_def Let_def)

lemma analytic_failure:
  "load_step_shape K step_path = Inr shape \<Longrightarrow>
   extract_analytic_circular_edges K shape = Inl e \<Longrightarrow>
   error_outcome uid e (process_step_file_async K uid step_path quality s0)"
  by (simp add: job_body_def process_step_file_async_def finish_job_def error_outcome_def
      set_progress_def Let_def)

lemma cylinder_failure:
  "load_step_shape K step_path = Inr shape \<Longrightarrow>
   extract_analytic_circular_edges K shape = Inr analytic \<Longrightarrow>
   extract_cylindrical_faces K shape = Inl e \<Longrightarrow>
   error_outcome uid e (process_step_file_async K uid step_path quality s0)"
  by (simp add: job_body_def process_step_file_async_def finish_job_def error_outcome_def
      set_progress_def Let_def)

lemma fitted_failure:
  "load_step_shape K step_path = Inr shape \<Longrightarrow>
   extract_analytic_circular_edges K shape = Inr analytic \<Longrightarrow>
   extract_cylindrical_faces K shape = Inr cyls \<Longrightarrow>
   extract_fitted_circles_from_edges K shape = Inl e \<Longrightarrow>
   error_outcome uid e (process_step_file_async K uid step_path quality s0)"
  by (simp add: job_body_def process_step_file_async_def finish_job_def error_outcome_def
      set_progress_def Let_def)

lemma clustering_failure:
  "load_step_shape K step_path = Inr shape \<Longrightarrow>
   extract_analytic_circular_edges K shape = Inr analytic \<Longrightarrow>
   extract_cylindrical_faces K shape = Inr cyls \<Longrightarrow>
   extract_fitted_circles_from_edges K shape = Inr fitted \<Longrightarrow>
   clustering_fault K (analytic @ cyls @ fitted) = Some e \<Longrightarrow>
   error_outcome uid e (process_step_file_async K uid step_path quality s0)"
  by (simp add: job_body_def process_step_file_async_def finish_job_def error_outcome_def
      set_progress_def Let_def)

lemma mesh_exception_empty:
  "face_triangulations K shape quality = Inl e \<Longrightarrow> extract_mesh_from_shape K shape quality = ([], [])"
  by (simp add: extract_mesh_from_shape_def)

lemma mesh_exception:
  "load_step_shape K step_path = Inr shape \<Longrightarrow>
   extract_analytic_circular_edges K shape = Inr analytic \<Longrightarrow>
   extract_cylindrical_faces K shape = Inr cyls \<Longrightarrow>
   extract_fitted_circles_from_edges K shape = Inr fitted \<Longrightarrow>
   clustering_fault K (analytic @ cyls @ fitted) = None \<Longrightarrow>
   face_triangulations K shape quality = Inl e \<Longrightarrow>
   no_mesh_outcome uid (combine_and_group (analytic @ cyls @ fitted))
     (process_step_file_async K uid step_path quality s0)"
  by (simp add: job_body_def process_step_file_async_def finish_job_def no_mesh_outcome_def
      set_progress_def Let_def mesh_exception_empty)

lemma mesh_write_failure:
  "load_step_shape K step_path = Inr shape \<Longrightarrow>
   extract_analytic_circular_edges K shape = Inr analytic \<Longrightarrow>
   extract_cylindrical_faces K shape = Inr cyls \<Longrightarrow>
   extract_fitted_circles_from_edges K shape = Inr fitted \<Longrightarrow>
   clustering_fault K (analytic @ cyls @ fitted) = None \<Longrightarrow>
   extract_mesh_from_shape K shape quality = (vertices, faces) \<Longrightarrow>
   vertices \<noteq> [] \<Longrightarrow> faces \<noteq> [] \<Longrightarrow>
   faults (DISK s0) (''mesh_'' @ uid @ ''.json'') = Some e \<Longrightarrow>
   error_outcome uid e (process_step_file_async K uid step_path quality s0)"
  by (simp add: job_body_def process_step_file_async_def finish_job_def error_outcome_def
      set_progress_def write_json_def Let_def)

lemma holes_write_failure:
  "load_step_shape K step_path = Inr shape \<Longrightarrow>
   extract_analytic_circular_edges K shape = Inr analytic \<Longrightarrow>
   extract_cylindrical_faces K shape = Inr cyls \<Longrightarrow>
   extract_fitted_circles_from_edges K shape = Inr fitted \<Longrightarrow>
   clustering_fault K (analytic @ cyls @ fitted) = None \<Longrightarrow>
   extract_mesh_from_shape K shape quality = (vertices, faces) \<Longrightarrow>
   vertices \<noteq> [] \<Longrightarrow> faces \<noteq> [] \<Longrightarrow>
   faults (DISK s0) (''mesh_'' @ uid @ ''.json'') = None \<Longrightarrow>
   faults (DISK s0) (''holes_'' @ uid @ ''.json'') = Some e \<Longrightarrow>
   error_outcome uid e (process_step_file_async K uid step_path quality s0)"
  by (simp add: job_body_def process_step_file_async_def finish_job_def error_outcome_def
      set_progress_def write_json_def Let_def)

lemma failing_kernel_calls:
  "load_step_shape (failing_kernel k) path = (if k = 0 then Inl ''Failed to read STEP file'' else Inr ())"
  "extract_analytic_circular_edges (failing_kernel k) shape =
     (if k = 1 then Inl ''Standard_NullObject'' else Inr [sample_candidate analytic_edge (0, 0, 0) 6])"
  "extract_cylindrical_faces (failing_kernel k) shape =
     (if k = 2 then Inl ''Standard_NullObject'' else Inr [sample_candidate cylindrical_face (1, 0, 3) 6])"
  "extract_fitted_circles_from_edges (failing_kernel k) shape =
     (if k = 3 then Inl ''Standard_NullObject'' else Inr [])"
  "clustering_fault (failing_kernel k) cs = (if k = 4 then Some ''MemoryError'' else None)"
  "face_triangulations (failing_kernel k) shape quality =
     (if k = 5 then Inl ''Standard_Failure''
      else Inr [Some ([(0, 0, 0), (1, 0, 0), (0, 1, 0)], [(1, 2, 3)])])"
  by (simp_all add: failing_kernel_def)

lemma sample_mesh:
  "extract_mesh_from_shape (failing_kernel 6) () quality
   = ([(0, 0, 0), (1, 0, 0), (0, 1, 0)], [(0, 1, 2)])"
  by (simp add: extract_mesh_from_shape_def failing_kernel_calls dedup_step_def
      lookup_vertex_def py_index_def)

lemma readonly_faults:
  "faults (DISK (readonly_state filename)) f = (if f = filename then Some ''Permission denied'' else None)"
  by (simp add: readonly_state_def)

text \<open>
  C3. The job is a total function of the state: nothing propagates out of it, and whatever
  the kernel does, it ends with \<open>percent = 100\<close> for its uid. If an exception leaves the
  \<open>try\<close> block, the job ends with \<open>percent = 100\<close>, the status \<open>Error:\<close> followed by
  the message, an empty hole list, no mesh reference and an empty selection; this is so when
  the loader, one of the three extractors or the clustering raises, and when one of the two
  result files cannot be written. An exception of the mesh step does not reach the job
  boundary: the mesh extractor catches it and returns the empty mesh, and the job ends with
  \<open>percent = 100\<close>, the status \<open>No mesh produced\<close>, no mesh reference, an empty
  selection and the detected holes kept.
\<close>

theorem job_errors_are_terminal:
  "(\<exists>st. PROGRESS (process_step_file_async K uid step_path quality s0) (Some uid)
          = Some \<lparr>percent = 100, status = st\<rparr>)
   \<and> (\<forall>e s. job_body K uid step_path quality s0 = Inl (e, s) \<longrightarrow>
          error_outcome uid e (process_step_file_async K uid step_path quality s0))
   \<and> (\<forall>e. load_step_shape K step_path = Inl e \<longrightarrow>
          error_outcome uid e (process_step_file_async K uid step_path quality s0))
   \<and> (\<forall>shape e. load_step_shape K step_path = Inr shape \<longrightarrow>
          extract_analytic_circular_edges K shape = Inl e \<longrightarrow>
          error_outcome uid e (process_step_file_async K uid step_path quality s0))
   \<and> (\<forall>shape analytic e. load_step_shape K step_path = Inr shape \<longrightarrow>
          extract_analytic_circular_edges K shape = Inr analytic \<longrightarrow>
          extract_cylindrical_faces K shape = Inl e \<longrightarrow>
          error_outcome uid e (process_step_file_async K uid step_path quality s0))
   \<and> (\<forall>shape analytic cyls e. load_step_shape K step_path = Inr shape \<longrightarrow>
          extract_analytic_circular_edges K shape = Inr analytic \<longrightarrow>
          extract_cylindrical_faces K shape = Inr cyls \<longrightarrow>
          extract_fitted_circles_from_edges K shape = Inl e \<longrightarrow>
          error_outcome uid e (process_step_file_async K uid step_path quality s0))
   \<and> (\<forall>shape analytic cyls fitted e. load_step_shape K step_path = Inr shape \<longrightarrow>
          extract_analytic_circular_edges K shape = Inr analytic \<longrightarrow>
          extract_cylindrical_faces K shape = Inr cyls \<longrightarrow>
          extract_fitted_circles_from_edges K shape = Inr fitted \<longrightarrow>
          clustering_fault K (analytic @ cyls @ fitted) = Some e \<longrightarrow>
          error_outcome uid e (process_step_file_async K uid step_path quality s0))
   \<and> (\<forall>shape analytic cyls fitted e. load_step_shape K step_path = Inr shape \<longrightarrow>
          extract_analytic_circular_edges K shape = Inr analytic \<longrightarrow>
          extract_cylindrical_faces K shape = Inr cyls \<longrightarrow>
          extract_fitted_circles_from_edges K shape = Inr fitted \<longrightarrow>
          clustering_fault K (analytic @ cyls @ fitted) = None \<longrightarrow>
          face_triangulations K shape quality = Inl e \<longrightarrow>
          no_mesh_outcome uid (combine_and_group (analytic @ cyls @ fitted))
            (process_step_file_async K uid step_path quality s0))
   \<and> (\<forall>shape analytic cyls fitted vertices faces e. load_step_shape K step_path = Inr shape \<longrightarrow>
          extract_analytic_circular_edges K shape = Inr analytic \<longrightarrow>
          extract_cylindrical_faces K shape = Inr cyls \<longrightarrow>
          extract_fitted_circles_from_edges K shape = Inr fitted \<longrightarrow>
          clustering_fault K (analytic @ cyls @ fitted) = None \<longrightarrow>
          extract_mesh_from_shape K shape quality = (vertices, faces) \<longrightarrow>
          vertices \<noteq> [] \<longrightarrow> faces \<noteq> [] \<longrightarrow>
          faults (DISK s0) (''mesh_'' @ uid @ ''.json'') = Some e \<longrightarrow>
          error_outcome uid e (process_step_file_async K uid step_path quality s0))
   \<and> (\<forall>shape analytic cyls fitted vertices faces e. load_step_shape K step_path = Inr shape \<longrightarrow>
          extract_analytic_circular_edges K shape = Inr analytic \<longrightarrow>
          extract_cylindrical_faces K shape = Inr cyls \<longrightarrow>
          extract_fitted_circles_from_edges K shape = Inr fitted \<longrightarrow>
          clustering_fault K (analytic @ cyls @ fitted) = None \<longrightarrow>
          extract_mesh_from_shape K shape quality = (vertices, faces) \<longrightarrow>
          vertices \<noteq> [] \<longrightarrow> faces \<noteq> [] \<longrightarrow>
          faults (DISK s0) (''mesh_'' @ uid @ ''.json'') = None \<longrightarrow>
          faults (DISK s0) (''holes_'' @ uid @ ''.json'') = Some e \<longrightarrow>
          error_outcome uid e (process_step_file_async K uid step_path quality s0))"
  apply (intro conjI allI impI)
           apply (rule process_finishes)
          apply (erule process_error_outcome)
         apply (erule load_failure)
        apply (erule (1) analytic_failure)
       apply (erule (2) cylinder_failure)
      apply (erule (3) fitted_failure)
     apply (erule (4) clustering_failure)
    apply (erule (5) mesh_exception)
   apply (erule (8) mesh_write_failure)
  apply (erule (9) holes_write_failure)
  done

theorem job_errors_are_terminal_witness:
  "load_step_shape (failing_kernel 0) ''part.stp'' = Inl ''Failed to read STEP file''
   \<and> error_outcome ''job'' ''Failed to read STEP file''
        (process_step_file_async (failing_kernel 0) ''job'' ''part.stp'' (3 / 2) empty_state)
   \<and> extract_analytic_circular_edges (failing_kernel 1) () = Inl ''Standard_NullObject''
   \<and> error_outcome ''job'' ''Standard_NullObject''
        (process_step_file_async (failing_kernel 1) ''job'' ''part.stp'' (3 / 2) empty_state)
   \<and> extract_cylindrical_faces (failing_kernel 2) () = Inl ''Standard_NullObject''
   \<and> error_outcome ''job'' ''Standard_NullObject''
        (process_step_file_async (failing_kernel 2) ''job'' ''part.stp'' (3 / 2) empty_state)
   \<and> extract_fitted_circles_from_edges (failing_kernel 3) () = Inl ''Standard_NullObject''
   \<and> error_outcome ''job'' ''Standard_NullObject''
        (process_step_file_async (failing_kernel 3) ''job'' ''part.stp'' (3 / 2) empty_state)
   \<and> clustering_fault (failing_kernel 4) ([sample_candidate analytic_edge (0, 0, 0) 6] @ [sample_candidate cylindrical_face (1, 0, 3) 6] @ []) = Some ''MemoryError''
   \<and> error_outcome ''job'' ''MemoryError''
        (process_step_file_async (failing_kernel 4) ''job'' ''part.stp'' (3 / 2) empty_state)
   \<and> face_triangulations (failing_kernel 5) () (3 / 2) = Inl ''Standard_Failure''
   \<and> no_mesh_outcome ''job'' (combine_and_group two_sources)
        (process_step_file_async (failing_kernel 5) ''job'' ''part.stp'' (3 / 2) empty_state)
   \<and> extract_mesh_from_shape (failing_kernel 6) () (3 / 2) = ([(0, 0, 0), (1, 0, 0), (0, 1, 0)], [(0, 1, 2)])
   \<and> faults (DISK (readonly_state ''mesh_job.json'')) (''mesh_'' @ ''job'' @ ''.json'') = Some ''Permission denied''
   \<and> error_outcome ''job'' ''Permission denied''
        (process_step_file_async (failing_kernel 6) ''job'' ''part.stp'' (3 / 2) (readonly_state ''mesh_job.json''))
   \<and> faults (DISK (readonly_state ''holes_job.json'')) (''mesh_'' @ ''job'' @ ''.json'') = None
   \<and> faults (DISK (readonly_state ''holes_job.json'')) (''holes_'' @ ''job'' @ ''.json'') = Some ''Permission denied''
   \<and> error_outcome ''job'' ''Permission denied''
        (process_step_file_async (failing_kernel 6) ''job'' ''part.stp'' (3 / 2) (readonly_state ''holes_job.json''))"
proof -
  have ld1: "load_step_shape (failing_kernel 1) ''part.stp'' = Inr ()"
    by (simp add: failing_kernel_calls)
  have ld2: "load_step_shape (failing_kernel 2) ''part.stp'' = Inr ()"
    by (simp add: failing_kernel_calls)
  have an2: "extract_analytic_circular_edges (failing_kernel 2) () = Inr [sample_candidate analytic_edge (0, 0, 0) 6]"
    by (simp add: failing_kernel_calls)
  have ld3: "load_step_shape (failing_kernel 3) ''part.stp'' = Inr ()"
    by (simp add: failing_kernel_calls)
  have an3: "extract_analytic_circular_edges (failing_kernel 3) () = Inr [sample_candidate analytic_edge (0, 0, 0) 6]"
    by (simp add: failing_kernel_calls)
  have cy3: "extract_cylindrical_faces (failing_kernel 3) () = Inr [sample_candidate cylindrical_face (1, 0, 3) 6]"
    by (simp add: failing_kernel_calls)
  have ld4: "load_step_shape (failing_kernel 4) ''part.stp'' = Inr ()"
    by (simp add: failing_kernel_calls)
  have an4: "extract_analytic_circular_edges (failing_kernel 4) () = Inr [sample_candidate analytic_edge (0, 0, 0) 6]"
    by (simp add: failing_kernel_calls)
  have cy4: "extract_cylindrical_faces (failing_kernel 4) () = Inr [sample_candidate cylindrical_face (1, 0, 3) 6]"
    by (simp add: failing_kernel_calls)
  have fi4: "extract_fitted_circles_from_edges (failing_kernel 4) () = Inr []"
    by (simp add: failing_kernel_calls)
  have ld5: "load_step_shape (failing_kernel 5) ''part.stp'' = Inr ()"
    by (simp add: failing_kernel_calls)
  have an5: "extract_analytic_circular_edges (failing_kernel 5) () = Inr [sample_candidate analytic_edge (0, 0, 0) 6]"
    by (simp add: failing_kernel_calls)
  have cy5: "extract_cylindrical_faces (failing_kernel 5) () = Inr [sample_candidate cylindrical_face (1, 0, 3) 6]"
    by (simp add: failing_kernel_calls)
  have fi5: "extract_fitted_circles_from_edges (failing_kernel 5) () = Inr []"
    by (simp add: failing_kernel_calls)
  have cl5: "clustering_fault (failing_kernel 5) ([sample_candidate analytic_edge (0, 0, 0) 6] @ [sample_candidate cylindrical_face (1, 0, 3) 6] @ []) = None"
    by (simp add: failing_kernel_calls)
  have ld6: "load_step_shape (failing_kernel 6) ''part.stp'' = Inr ()"
    by (simp add: failing_kernel_calls)
  have an6: "extract_analytic_circular_edges (failing_kernel 6) () = Inr [sample_candidate analytic_edge (0, 0, 0) 6]"
    by (simp add: failing_kernel_calls)
  have cy6: "extract_cylindrical_faces (failing_kernel 6) () = Inr [sample_candidate cylindrical_face (1, 0, 3) 6]"
    by (simp add: failing_kernel_calls)
  have fi6: "extract_fitted_circles_from_edges (failing_kernel 6) () = Inr []"
    by (simp add: failing_kernel_calls)
  have cl6: "clustering_fault (failing_kernel 6) ([sample_candidate analytic_edge (0, 0, 0) 6] @ [sample_candidate cylindrical_face (1, 0, 3) 6] @ []) = None"
    by (simp add: failing_kernel_calls)
  have l0: "load_step_shape (failing_kernel 0) ''part.stp'' = Inl ''Failed to read STEP file''"
    by (simp add: failing_kernel_calls)
  have a1: "extract_analytic_circular_edges (failing_kernel 1) () = Inl ''Standard_NullObject''"
    by (simp add: failing_kernel_calls)
  have c2: "extract_cylindrical_faces (failing_kernel 2) () = Inl ''Standard_NullObject''"
    by (simp add: failing_kernel_calls)
  have f3: "extract_fitted_circles_from_edges (failing_kernel 3) () = Inl ''Standard_NullObject''"
    by (simp add: failing_kernel_calls)
  have k4: "clustering_fault (failing_kernel 4) ([sample_candidate analytic_edge (0, 0, 0) 6] @ [sample_candidate cylindrical_face (1, 0, 3) 6] @ []) = Some ''MemoryError''"
    by (simp add: failing_kernel_calls)
  have t5: "face_triangulations (failing_kernel 5) () (3 / 2) = Inl ''Standard_Failure''"
    by (simp add: failing_kernel_calls)
  have m6: "extract_mesh_from_shape (failing_kernel 6) () (3 / 2) = ([(0, 0, 0), (1, 0, 0), (0, 1, 0)], [(0, 1, 2)])"
    by (rule sample_mesh)
  have v6: "[(0, 0, 0), (1, 0, 0), (0, 1, 0)] \<noteq> ([] :: vec3 list)" and f6: "[(0, 1, 2)] \<noteq> ([] :: (nat \<times> nat \<times> nat) list)"
    by simp_all
  have w1: "faults (DISK (readonly_state ''mesh_job.json'')) (''mesh_'' @ ''job'' @ ''.json'') = Some ''Permission denied''"
    by (simp add: readonly_faults)
  have w2: "faults (DISK (readonly_state ''holes_job.json'')) (''mesh_'' @ ''job'' @ ''.json'') = None"
    by (simp add: readonly_faults)
  have w3: "faults (DISK (readonly_state ''holes_job.json'')) (''holes_'' @ ''job'' @ ''.json'') = Some ''Permission denied''"
    by (simp add: readonly_faults)
  have ts: "[sample_candidate analytic_edge (0, 0, 0) 6] @ [sample_candidate cylindrical_face (1, 0, 3) 6] @ [] = two_sources"
    by (simp add: two_sources_def)
  note r0 = job_errors_are_terminal
      [of "failing_kernel 0" "''job''" "''part.stp''" "3 / 2" "empty_state",
        THEN conjunct2, THEN conjunct2, THEN conjunct1, THEN spec, THEN mp, OF l0]
  note r1 = job_errors_are_terminal
      [of "failing_kernel 1" "''job''" "''part.stp''" "3 / 2" "empty_state",
        THEN conjunct2, THEN conjunct2, THEN conjunct2, THEN conjunct1, THEN spec, THEN spec, THEN
        mp, THEN mp, OF ld1 a1]
  note r2 = job_errors_are_terminal
      [of "failing_kernel 2" "''job''" "''part.stp''" "3 / 2" "empty_state",
        THEN conjunct2, THEN conjunct2, THEN conjunct2, THEN conjunct2, THEN conjunct1, THEN spec,
        THEN spec, THEN spec, THEN mp, THEN mp, THEN mp, OF ld2 an2 c2]
  note r3 = job_errors_are_terminal
      [of "failing_kernel 3" "''job''" "''part.stp''" "3 / 2" "empty_state",
        THEN conjunct2, THEN conjunct2, THEN conjunct2, THEN conjunct2, THEN conjunct2, THEN
        conjunct1, THEN spec, THEN spec, THEN spec, THEN spec, THEN mp, THEN mp, THEN mp, THEN mp,
        OF ld3 an3 cy3 f3]
  note r4 = job_errors_are_terminal
      [of "failing_kernel 4" "''job''" "''part.stp''" "3 / 2" "empty_state",
        THEN conjunct2, THEN conjunct2, THEN conjunct2, THEN conjunct2, THEN conjunct2, THEN
        conjunct2, THEN conjunct1, THEN spec, THEN spec, THEN spec, THEN spec, THEN spec, THEN mp,
        THEN mp, THEN mp, THEN mp, THEN mp, OF ld4 an4 cy4 fi4 k4]
  note r5 = job_errors_are_terminal
      [of "failing_kernel 5" "''job''" "''part.stp''" "3 / 2" "empty_state",
        THEN conjunct2, THEN conjunct2, THEN conjunct2, THEN conjunct2, THEN conjunct2, THEN
        conjunct2, THEN conjunct2, THEN conjunct1, THEN spec, THEN spec, THEN spec, THEN spec,
        THEN spec, THEN mp, THEN mp, THEN mp, THEN mp, THEN mp, THEN mp, OF ld5 an5 cy5 fi5 cl5
        t5, unfolded ts]
  note r6 = job_errors_are_terminal
      [of "failing_kernel 6" "''job''" "''part.stp''" "3 / 2" "readonly_state ''mesh_job.json''",
        THEN conjunct2, THEN conjunct2, THEN conjunct2, THEN conjunct2, THEN conjunct2, THEN
        conjunct2, THEN conjunct2, THEN conjunct2, THEN conjunct1, THEN spec, THEN spec, THEN
        spec, THEN spec, THEN spec, THEN spec, THEN spec, THEN mp, THEN mp, THEN mp, THEN mp, THEN
        mp, THEN mp, THEN mp, THEN mp, THEN mp, OF ld6 an6 cy6 fi6 cl6 m6 v6 f6 w1]
  note r7 = job_errors_are_terminal
      [of "failing_kernel 6" "''job''" "''part.stp''" "3 / 2" "readonly_state ''holes_job.json''",
        THEN conjunct2, THEN conjunct2, THEN conjunct2, THEN conjunct2, THEN conjunct2, THEN
        conjunct2, THEN conjunct2, THEN conjunct2, THEN conjunct2, THEN spec, THEN spec, THEN
        spec, THEN spec, THEN spec, THEN spec, THEN spec, THEN mp, THEN mp, THEN mp, THEN mp, THEN
        mp, THEN mp, THEN mp, THEN mp, THEN mp, THEN mp, OF ld6 an6 cy6 fi6 cl6 m6 v6 f6 w2 w3]
  show ?thesis
    by (rule conjI [OF l0 conjI [OF r0 conjI [OF a1 conjI [OF r1 conjI [OF c2 conjI [OF r2
          conjI [OF f3 conjI [OF r3 conjI [OF k4 conjI [OF r4 conjI [OF t5 conjI [OF r5 conjI [OF
          m6 conjI [OF w1 conjI [OF r6 conjI [OF w2 conjI [OF w3 r7]]]]]]]]]]]]]]]]])
qed

text \<open>
  The mesher raises on a model with one detected hole: the job ends with the status
  \<open>No mesh produced\<close> and keeps the hole; its status is no error status and its hole list
  is not empty.
\<close>

theorem mesh_step_exception_counterexample:
  "face_triangulations (failing_kernel 5) () (3 / 2) = Inl ''Standard_Failure''
   \<and> PROGRESS (process_step_file_async (failing_kernel 5) ''job'' ''part.stp'' (3 / 2) empty_state) (Some ''job'') = Some \<lparr>percent = 100, status = ''No mesh produced''\<rparr>
   \<and> HOLE_DATA (process_step_file_async (failing_kernel 5) ''job'' ''part.stp'' (3 / 2) empty_state) (Some ''job'') = Some (combine_and_group two_sources)
   \<and> length (combine_and_group two_sources) = 1
   \<and> HOLE_DATA (process_step_file_async (failing_kernel 5) ''job'' ''part.stp'' (3 / 2) empty_state) (Some ''job'') \<noteq> Some []
   \<and> \<not> error_outcome ''job'' ''Standard_Failure'' (process_step_file_async (failing_kernel 5) ''job'' ''part.stp'' (3 / 2) empty_state)"
proof -
  have run: "no_mesh_outcome ''job'' (combine_and_group two_sources) (process_step_file_async (failing_kernel 5) ''job'' ''part.stp'' (3 / 2) empty_state)"
    using mesh_exception [of "failing_kernel 5" "''part.stp''" "()"
        "[sample_candidate analytic_edge (0, 0, 0) 6]"
        "[sample_candidate cylindrical_face (1, 0, 3) 6]" "[]" "3 / 2" "''Standard_Failure''"
        "''job''" empty_state]
    by (simp add: failing_kernel_calls two_sources_def)
  have t5: "face_triangulations (failing_kernel 5) () (3 / 2) = Inl ''Standard_Failure''"
    by (simp add: failing_kernel_calls)
  have p: "PROGRESS (process_step_file_async (failing_kernel 5) ''job'' ''part.stp'' (3 / 2) empty_state) (Some ''job'') = Some \<lparr>percent = 100, status = ''No mesh produced''\<rparr>"
    and h: "HOLE_DATA (process_step_file_async (failing_kernel 5) ''job'' ''part.stp'' (3 / 2) empty_state) (Some ''job'') = Some (combine_and_group two_sources)"
    using run by (simp_all add: no_mesh_outcome_def)
  have ne: "combine_and_group two_sources \<noteq> []"
    using length_combine_two_sources by auto
  have h2: "HOLE_DATA (process_step_file_async (failing_kernel 5) ''job'' ''part.stp'' (3 / 2) empty_state) (Some ''job'') \<noteq> Some []"
    unfolding h using ne by simp
  have e: "\<not> error_outcome ''job'' ''Standard_Failure'' (process_step_file_async (failing_kernel 5) ''job'' ''part.stp'' (3 / 2) empty_state)"
    unfolding error_outcome_def h using ne by simp
  show ?thesis
    by (rule conjI [OF t5 conjI [OF p conjI [OF h conjI [OF length_combine_two_sources
          conjI [OF h2 e]]]]])
qed

end
